theory Spec2Isabelle
  imports Complex_Main "HOL-Library.Sublist" "HOL-Library.Word"
begin

section \<open>The upload handler of \<^verbatim>\<open>src/pages/api/upload.ts\<close>\<close>

text \<open>
  The handler is one asynchronous function of the request. It is embedded as a function
  from the request and the state of the stores it talks to (the user, folder and file
  tables behind prisma, and the ordered list of the effects it performs on the
  datasource, the temporary directory, the worker pool and the notification channel) to
  the response it sends and the state it leaves. Library functions the handler imports
  (\<^verbatim>\<open>Number\<close>, \<^verbatim>\<open>parseExpiry\<close>, \<^verbatim>\<open>formatFileName\<close>,
  \<^verbatim>\<open>guess\<close>, \<^verbatim>\<open>sharp\<close>, ...) are fields of the record \<open>env\<close>; the
  configuration object \<^verbatim>\<open>zconfig\<close> is the record \<open>config\<close>. Calls of the logger have
  no effect on the response or on the stores and are left out.

  Exceptions are values: the rejection of multer, the errors of \<^verbatim>\<open>parseExpiry\<close> that
  the handler catches, the error of \<^verbatim>\<open>removeGPSData\<close> that it catches, the
  \<^verbatim>\<open>URIError\<close> of \<^verbatim>\<open>decodeURI\<close> and the \<^verbatim>\<open>TypeError\<close> of reading a file or a
  header that is not there. The other calls (prisma, the datasource, \<^verbatim>\<open>writeFile\<close>,
  \<^verbatim>\<open>sharp\<close>, \<^verbatim>\<open>hashPassword\<close>, the notification) are taken to return. Dates are
  integers, in milliseconds; the cooldowns of the configuration are whole seconds.
\<close>

subsection \<open>JavaScript values\<close>

text \<open>A JavaScript number, as far as the handler compares it: not-a-number, the two
  infinities, or a finite value.\<close>

datatype jsnum = NaN | NegInf | Fin real | PosInf

fun isNaN :: "jsnum \<Rightarrow> bool" where
  "isNaN NaN = True"
| "isNaN _ = False"

text \<open>\<open>lt_num x c\<close> is \<^verbatim>\<open>x < c\<close> and \<open>gt_num x c\<close> is \<^verbatim>\<open>x > c\<close> for a finite constant
  \<open>c\<close>; every comparison with NaN is false.\<close>

fun lt_num :: "jsnum \<Rightarrow> real \<Rightarrow> bool" where
  "lt_num NaN c = False"
| "lt_num NegInf c = True"
| "lt_num (Fin r) c = (r < c)"
| "lt_num PosInf c = False"

fun gt_num :: "jsnum \<Rightarrow> real \<Rightarrow> bool" where
  "gt_num NaN c = False"
| "gt_num NegInf c = False"
| "gt_num (Fin r) c = (r > c)"
| "gt_num PosInf c = True"

text \<open>Truthiness of a number: zero and NaN are falsy.\<close>

fun truthy_num :: "jsnum \<Rightarrow> bool" where
  "truthy_num NaN = False"
| "truthy_num (Fin r) = (r \<noteq> 0)"
| "truthy_num _ = True"

text \<open>A value that is a number or \<^verbatim>\<open>null\<close>. In \<^verbatim>\<open>isNaN\<close> and in comparisons
  \<^verbatim>\<open>null\<close> converts to zero; as a condition it is falsy.\<close>

fun null_to_num :: "jsnum option \<Rightarrow> jsnum" where
  "null_to_num None = Fin 0"
| "null_to_num (Some x) = x"

fun truthy_nullable :: "jsnum option \<Rightarrow> bool" where
  "truthy_nullable None = False"
| "truthy_nullable (Some x) = truthy_num x"

type_synonym bytes = "8 word list"

type_synonym headers = "string \<rightharpoonup> string"

text \<open>\<^verbatim>\<open>req.headers[k]\<close> used as a condition: the header is there and is not the empty
  string.\<close>

definition truthy_hdr :: "headers \<Rightarrow> string \<Rightarrow> bool" where
  "truthy_hdr hs k = (case hs k of None \<Rightarrow> False | Some v \<Rightarrow> v \<noteq> [])"

text \<open>A header inside a template string: \<^verbatim>\<open>undefined\<close> prints as \<open>undefined\<close>.\<close>

definition hdr_text :: "headers \<Rightarrow> string \<Rightarrow> string" where
  "hdr_text hs k = (case hs k of None \<Rightarrow> ''undefined'' | Some v \<Rightarrow> v)"

subsection \<open>String functions of the standard library\<close>

text \<open>\<^verbatim>\<open>s.split(c)\<close> for a one-character separator.\<close>

fun split_on :: "char \<Rightarrow> string \<Rightarrow> string list" where
  "split_on c [] = [[]]"
| "split_on c (x # xs) =
     (if x = c then [] # split_on c xs
      else (case split_on c xs of
              [] \<Rightarrow> [[x]]
            | p # ps \<Rightarrow> (x # p) # ps))"

text \<open>\<^verbatim>\<open>s.replace(pat, rep)\<close> for a string pattern: the first occurrence only.\<close>

fun replace_first :: "string \<Rightarrow> string \<Rightarrow> string \<Rightarrow> string" where
  "replace_first pat rep [] = (if pat = [] then rep else [])"
| "replace_first pat rep (x # xs) =
     (if prefix pat (x # xs) then rep @ drop (length pat) (x # xs)
      else x # replace_first pat rep xs)"

text \<open>\<^verbatim>\<open>s.toLowerCase()\<close> on the ASCII letters.\<close>

definition lower_char :: "char \<Rightarrow> char" where
  "lower_char c =
     (if (65::nat) \<le> of_char c \<and> of_char c \<le> (90::nat)
      then char_of (of_char c + (32::nat)) else c)"

definition toLowerCase :: "string \<Rightarrow> string" where
  "toLowerCase s = map lower_char s"

text \<open>\<^verbatim>\<open>s.match(t)\<close> as a condition, for a pattern without special characters: \<open>t\<close>
  occurs in \<open>s\<close>.\<close>

fun contains :: "string \<Rightarrow> string \<Rightarrow> bool" where
  "contains [] t = (t = [])"
| "contains (x # xs) t = (prefix t (x # xs) \<or> contains xs t)"

text \<open>The decimal numeral of an index, as \<^verbatim>\<open>${i}\<close> prints it.\<close>

definition digit_char :: "nat \<Rightarrow> char" where
  "digit_char d = char_of (48 + d)"

function show_nat :: "nat \<Rightarrow> string" where
  "show_nat n = (if n < 10 then [digit_char n] else show_nat (n div 10) @ [digit_char (n mod 10)])"
  by pat_completeness auto
termination
  by (relation "measure (\<lambda>n. n)") auto

declare show_nat.simps [simp del]

text \<open>The extension the handler computes:
  \<^verbatim>\<open>name.split('.').length === 1 ? '' : name.split('.').pop()\<close>.\<close>

definition ext_of :: "string \<Rightarrow> string" where
  "ext_of name =
     (let parts = split_on (CHR ''.'') name
      in if length parts = 1 then [] else last parts)"

subsection \<open>Data\<close>

record user =
  uid :: int
  username :: string
  token :: string
  administrator :: bool
  ratelimit :: "int option"
  domains :: "string list"

record folder =
  folder_id :: int
  folder_userId :: int

text \<open>A row of the file table. \<open>f_folderId\<close> is \<open>None\<close> when the spread
  \<^verbatim>\<open>...(folderToAdd && {folderId: folderToAdd})\<close> adds nothing; \<open>f_size\<close> is \<open>None\<close> on
  the chunked path, which passes no size.\<close>

record file_rec =
  f_id :: int
  f_name :: string
  f_mimetype :: string
  f_userId :: int
  f_embed :: bool
  f_password :: "string option"
  f_expiresAt :: "int option"
  f_maxViews :: "jsnum option"
  f_originalName :: "string option"
  f_size :: "nat option"
  f_folderId :: "jsnum option"

text \<open>One file of \<^verbatim>\<open>req.files\<close>, as multer delivers it.\<close>

record upfile =
  originalname :: string
  mimetype :: string
  fsize :: nat
  buffer :: bytes

text \<open>The path of a temporary chunk file,
  \<^verbatim>\<open>join(temp_directory, `zipline_partial_${identifier}_${start}_${end}`)\<close>, kept as its
  components, and the payload written there.\<close>

record tempfile =
  t_dir :: string
  t_identifier :: "string option"
  t_start :: "jsnum option"
  t_end :: "jsnum option"
  t_data :: bytes

record worker_data =
  w_fileId :: int
  w_filename :: string
  w_mimetype :: string
  w_identifier :: "string option"
  w_lastchunk :: bool
  w_totalBytes :: "jsnum option"
  w_expiresAt :: "int option"
  w_format :: string
  w_fileMaxViews :: "jsnum option"

text \<open>What the handler does to the world, in the order it does it.\<close>

datatype effect =
    UserUpdated int "int option"
  | FileCreated file_rec
  | InvisCreated int string
  | BlobSaved string bytes string
  | TempWritten tempfile
  | WorkerSpawned worker_data
  | UploadNotified int string string
  | GpsRemoved int

record state =
  users :: "user list"
  folders :: "folder list"
  files :: "file_rec list"
  next_file_id :: int
  effects :: "effect list"

text \<open>The \<^verbatim>\<open>response\<close> object of the single-shot path.\<close>

datatype assumed = AssumedFalse | Assumed string

record response =
  r_files :: "string list"
  r_expiresAt :: "int option"
  r_removed_gps :: "bool option"
  r_assumed_mimetype :: "assumed option"
  r_folder :: "int option"

text \<open>What the handler answers. \<open>Thrown\<close> is an exception that leaves the handler.\<close>

datatype http_response =
    Forbidden string
  | RateLimited int
  | BadRequest string
  | Json response
  | JsonPending "string list"
  | JsonSuccess
  | PlainText string
  | Thrown string

text \<open>Modelled from the spec: the helpers \<^verbatim>\<open>res.forbidden\<close>, \<^verbatim>\<open>res.badRequest\<close> and
  \<^verbatim>\<open>res.ratelimited\<close> belong to the middleware \<^verbatim>\<open>lib/middleware/withZipline\<close>, which
  is not among the sources. The spec's interface section gives their statuses: 403 for
  authentication failures, 400 for validation failures, the rate-limit status with the
  remaining milliseconds, 200 for every JSON or plain-text answer; any other failure is a
  generic server error.\<close>

fun status_code :: "http_response \<Rightarrow> nat" where
  "status_code (Forbidden _) = 403"
| "status_code (RateLimited _) = 429"
| "status_code (BadRequest _) = 400"
| "status_code (Json _) = 200"
| "status_code (JsonPending _) = 200"
| "status_code JsonSuccess = 200"
| "status_code (PlainText _) = 200"
| "status_code (Thrown _) = 500"

record config =
  ratelimit_admin :: int
  ratelimit_user :: int
  default_expiration :: "string option"
  default_format :: string
  name_formats :: "string list"
  chunks_enabled :: bool
  temp_directory :: string
  return_https :: bool
  route :: string
  admin_limit :: nat
  user_limit :: nat
  disabled_extensions :: "string list"
  assume_mimetypes :: bool
  invis_length :: int
  discord_upload :: bool
  exif_enabled :: bool
  exif_remove_gps :: bool
  schema_default_mimetype :: string

text \<open>The functions the handler imports. \<open>now\<close> is \<^verbatim>\<open>Date.now()\<close>, read at most once on
  every path through the rate-limit section. \<open>parseExpiry\<close> returns the message of the
  error it throws, or the date in milliseconds. \<open>decodeURI\<close> is \<open>None\<close> where it throws.
  \<open>formatFileName\<close> and \<open>random_index\<close> take the index of the file being handled, since
  two calls with equal arguments may differ. \<open>removeGPSData\<close> is \<open>False\<close> where it
  throws.\<close>

record env =
  now :: int
  jsNumber :: "string \<Rightarrow> jsnum"
  parseExpiry :: "string \<Rightarrow> string + int"
  formatFileName :: "nat \<Rightarrow> string \<Rightarrow> string \<Rightarrow> string"
  decodeURI :: "string \<Rightarrow> string option"
  encodeURI :: "string \<Rightarrow> string"
  hashPassword :: "string \<Rightarrow> string"
  guess :: "string \<Rightarrow> string option"
  pathExt :: "string \<Rightarrow> string"
  compress :: "bytes \<Rightarrow> jsnum option \<Rightarrow> bytes"
  createInvisImage :: "int \<Rightarrow> int \<Rightarrow> string"
  removeGPSData :: "file_rec \<Rightarrow> bool"
  random_index :: "nat \<Rightarrow> nat \<Rightarrow> nat"

text \<open>What multer leaves: the message of its error, or \<^verbatim>\<open>req.files\<close> (\<open>None\<close> when it
  is undefined).\<close>

record request =
  req_headers :: headers
  multer :: "string + upfile list option"

text \<open>\<^verbatim>\<open>Number(s)\<close>: the empty string converts to zero, every other string as the
  library decides.\<close>

definition Number_of :: "env \<Rightarrow> string \<Rightarrow> jsnum" where
  "Number_of env s = (if s = [] then Fin 0 else jsNumber env s)"

text \<open>\<^verbatim>\<open>req.headers[k] ? Number(req.headers[k]) : null\<close>.\<close>

definition header_number :: "env \<Rightarrow> headers \<Rightarrow> string \<Rightarrow> jsnum option" where
  "header_number env hs k =
     (case hs k of
        None \<Rightarrow> None
      | Some v \<Rightarrow> if v = [] then None else Some (Number_of env v))"

subsection \<open>Authentication and the rate limit (lines 23 to 70)\<close>

text \<open>\<^verbatim>\<open>prisma.user.findFirst({where: {token}})\<close>.\<close>

definition findFirstUser :: "string \<Rightarrow> user list \<Rightarrow> user option" where
  "findFirstUser tok us = find (\<lambda>u. token u = tok) us"

text \<open>\<^verbatim>\<open>prisma.user.update({where: {id}, data: {ratelimit}})\<close>; the identifier is the
  key of the table.\<close>

definition update_ratelimit :: "int \<Rightarrow> int option \<Rightarrow> state \<Rightarrow> state" where
  "update_ratelimit i r st =
     st\<lparr>users := map (\<lambda>u. if uid u = i then u\<lparr>ratelimit := r\<rparr> else u) (users st),
        effects := effects st @ [UserUpdated i r]\<rparr>"

text \<open>The rate-limit section. The result is the response when the handler returns
  there, and the state it leaves. The inner condition of the last branch is the
  source's.\<close>

definition ratelimit_check ::
  "env \<Rightarrow> config \<Rightarrow> user \<Rightarrow> headers \<Rightarrow> state \<Rightarrow> http_response option \<times> state" where
  "ratelimit_check env cfg u hs st =
     (if ratelimit u \<noteq> None \<and> \<not> truthy_hdr hs ''content-range'' then
        (let remaining = the (ratelimit u) - now env
         in if remaining \<le> 0 then (None, update_ratelimit (uid u) None st)
            else (Some (RateLimited remaining), st))
      else if ratelimit u = None \<and> \<not> truthy_hdr hs ''content-range'' then
        (if administrator u \<and> ratelimit_admin cfg > 0 then
           (None, update_ratelimit (uid u) (Some (now env + ratelimit_admin cfg * 1000)) st)
         else if \<not> administrator u \<and> ratelimit_user cfg > 0 then
           (if administrator u \<and> ratelimit_user cfg > 0 then
              (None, update_ratelimit (uid u) (Some (now env + ratelimit_user cfg * 1000)) st)
            else (None, st))
         else (None, st))
      else (None, st))"

subsection \<open>Header parsing (lines 79 to 137)\<close>

definition empty_response :: response where
  "empty_response =
     \<lparr>r_files = [], r_expiresAt = None, r_removed_gps = None,
      r_assumed_mimetype = None, r_folder = None\<rparr>"

text \<open>Lines 88 to 98: the expiry the client asks for, also stored in the response.\<close>

definition client_expiry :: "env \<Rightarrow> headers \<Rightarrow> string + int option" where
  "client_expiry env hs =
     (case hs ''expires-at'' of
        None \<Rightarrow> Inr None
      | Some v \<Rightarrow>
          if v = [] then Inr None
          else (case parseExpiry env v of
                  Inl m \<Rightarrow> Inl m
                | Inr d \<Rightarrow> Inr (Some d)))"

text \<open>Lines 100 to 106: the configured default expiration replaces the expiry.\<close>

definition default_expiry :: "env \<Rightarrow> config \<Rightarrow> int option \<Rightarrow> string + int option" where
  "default_expiry env cfg expiry =
     (case default_expiration cfg of
        None \<Rightarrow> Inr expiry
      | Some v \<Rightarrow>
          if v = [] then Inr expiry
          else (case parseExpiry env v of
                  Inl m \<Rightarrow> Inl (m @ '' (UPLOADER_DEFAULT_EXPIRATION)'')
                | Inr d \<Rightarrow> Inr (Some d)))"

text \<open>Lines 108 to 111.\<close>

definition request_format :: "config \<Rightarrow> headers \<Rightarrow> string" where
  "request_format cfg hs =
     (let rawFormat =
            toLowerCase (if truthy_hdr hs ''format'' then hdr_text hs ''format''
                         else default_format cfg)
      in if rawFormat \<in> set (name_formats cfg) then rawFormat else ''random'')"

text \<open>Lines 116 to 119 and 122 to 123: the message of the rejection, if any.\<close>

definition check_compression_percent :: "jsnum option \<Rightarrow> string option" where
  "check_compression_percent p =
     (if isNaN (null_to_num p)
      then Some ''invalid image compression percent (invalid number)''
      else if lt_num (null_to_num p) 0 \<or> gt_num (null_to_num p) 100
      then Some ''invalid image compression percent (% < 0 || % > 100)''
      else None)"

definition check_max_views :: "jsnum option \<Rightarrow> string option" where
  "check_max_views v =
     (if isNaN (null_to_num v) then Some ''invalid max views (invalid number)''
      else if lt_num (null_to_num v) 0 then Some ''invalid max views (max views < 0)''
      else None)"

text \<open>Lines 125 to 134: the folder the request names, \<open>None\<close> when it names none, or
  the message of the rejection.\<close>

definition folder_lookup :: "user \<Rightarrow> jsnum option \<Rightarrow> state \<Rightarrow> string + int option" where
  "folder_lookup u folderToAdd st =
     (if truthy_nullable folderToAdd then
        (if isNaN (null_to_num folderToAdd) then Inl ''invalid folder id (invalid number)''
         else (case find (\<lambda>f. Fin (real_of_int (folder_id f)) = null_to_num folderToAdd
                              \<and> folder_userId f = uid u) (folders st) of
                 None \<Rightarrow> Inl ''invalid folder id (no folder found)''
               | Some f \<Rightarrow> Inr (Some (folder_id f))))
      else Inr None)"

text \<open>Line 136: \<^verbatim>\<open>response.folder = folder.id\<close>.\<close>

definition with_folder :: "int option \<Rightarrow> response \<Rightarrow> response" where
  "with_folder fid resp = (case fid of None \<Rightarrow> resp | Some i \<Rightarrow> resp\<lparr>r_folder := Some i\<rparr>)"

text \<open>What the header section hands to the two upload paths.\<close>

record settings =
  s_format :: string
  s_percent :: "jsnum option"
  s_expiry :: "int option"
  s_maxViews :: "jsnum option"
  s_folderToAdd :: "jsnum option"

subsection \<open>Public URL (lines 195 to 206 and 329 to 340)\<close>

definition scheme :: "config \<Rightarrow> string" where
  "scheme cfg = (if return_https cfg then ''https'' else ''http'')"

text \<open>\<^verbatim>\<open>Math.floor(Math.random() * n)\<close> is below \<open>n\<close>.\<close>

definition pick_domain :: "env \<Rightarrow> config \<Rightarrow> user \<Rightarrow> headers \<Rightarrow> nat \<Rightarrow> string" where
  "pick_domain env cfg u hs i =
     (if truthy_hdr hs ''override-domain''
      then scheme cfg @ ''://'' @ hdr_text hs ''override-domain''
      else if domains u \<noteq> []
      then domains u ! (random_index env i (length (domains u)) mod length (domains u))
      else scheme cfg @ ''://'' @ hdr_text hs ''host'')"

definition route_prefix :: "config \<Rightarrow> string" where
  "route_prefix cfg = (if route cfg = ''/'' then ''/'' else route cfg @ ''/'')"

text \<open>\<^verbatim>\<open>prisma.file.create\<close>: the row gets the next identifier.\<close>

definition create_file :: "file_rec \<Rightarrow> state \<Rightarrow> state" where
  "create_file r st =
     st\<lparr>files := files st @ [r], next_file_id := next_file_id st + 1,
        effects := effects st @ [FileCreated r]\<rparr>"

definition add_effect :: "effect \<Rightarrow> state \<Rightarrow> state" where
  "add_effect e st = st\<lparr>effects := effects st @ [e]\<rparr>"

text \<open>\<^verbatim>\<open>prisma.file.findFirst({where: {name}})\<close> used as a condition.\<close>

definition name_in_use :: "string \<Rightarrow> state \<Rightarrow> bool" where
  "name_in_use n st = (find (\<lambda>f. f_name f = n) (files st) \<noteq> None)"

subsection \<open>The chunked path (lines 140 to 237)\<close>

definition nth_opt :: "'a list \<Rightarrow> nat \<Rightarrow> 'a option" where
  "nth_opt xs n = (if n < length xs then Some (xs ! n) else None)"

text \<open>Lines 152 to 156: the numbers of \<^verbatim>\<open>bytes start-end/total\<close>.\<close>

definition content_range_numbers :: "env \<Rightarrow> string \<Rightarrow> jsnum list" where
  "content_range_numbers env v =
     map (Number_of env)
       (split_on (CHR ''/'') (replace_first ''-'' ''/'' (replace_first ''bytes '' [] v)))"

text \<open>Lines 141 to 149. A \<^verbatim>\<open>where\<close> clause whose value is \<^verbatim>\<open>undefined\<close> filters
  nothing, so without the header any row is found.\<close>

definition partial_name_conflict :: "headers \<Rightarrow> state \<Rightarrow> bool" where
  "partial_name_conflict hs st =
     (case hs ''x-zipline-partial-filename'' of
        None \<Rightarrow> files st \<noteq> []
      | Some n \<Rightarrow> name_in_use n st)"

text \<open>Lines 183 to 193: the row of the last chunk. The fields the call does not pass
  are the defaults of the schema.\<close>

definition partial_record ::
  "env \<Rightarrow> config \<Rightarrow> user \<Rightarrow> headers \<Rightarrow> settings \<Rightarrow> string \<Rightarrow> int \<Rightarrow> file_rec" where
  "partial_record env cfg u hs s filename i =
     (let fileName = formatFileName env 0 (s_format s) filename;
          ext = ext_of filename
      in \<lparr>f_id = i,
          f_name = fileName @ (if ext \<noteq> [] then ''.'' else []) @ ext,
          f_mimetype = (if truthy_hdr hs ''uploadtext'' then ''text/plain''
                        else (case hs ''x-zipline-partial-mimetype'' of
                                None \<Rightarrow> schema_default_mimetype cfg
                              | Some m \<Rightarrow> m)),
          f_userId = uid u,
          f_embed = False,
          f_password = None,
          f_expiresAt = None,
          f_maxViews = None,
          f_originalName = (if truthy_hdr hs ''original-name'' then Some filename else None),
          f_size = None,
          f_folderId = (if truthy_nullable (s_folderToAdd s) then s_folderToAdd s else None)\<rparr>)"

definition chunked ::
  "env \<Rightarrow> config \<Rightarrow> user \<Rightarrow> headers \<Rightarrow> upfile list option \<Rightarrow> settings \<Rightarrow> state
   \<Rightarrow> http_response \<times> state" where
  "chunked env cfg u hs fs s st =
     (if s_format s = ''name'' \<and> partial_name_conflict hs st
      then (BadRequest ''filename already exists (conflict: NAME format)'', st)
      else
        (let nums = content_range_numbers env (hdr_text hs ''content-range'');
             start = nth_opt nums 0;
             end = nth_opt nums 1;
             total = nth_opt nums 2;
             identifier = hs ''x-zipline-partial-identifier'';
             lastchunk = (hs ''x-zipline-partial-lastchunk'' = Some ''true'')
         in case fs of
              None \<Rightarrow> (Thrown ''TypeError'', st)
            | Some [] \<Rightarrow> (Thrown ''TypeError'', st)
            | Some (chunk # _) \<Rightarrow>
                (let st1 = add_effect (TempWritten
                             \<lparr>t_dir = temp_directory cfg, t_identifier = identifier,
                              t_start = start, t_end = end, t_data = buffer chunk\<rparr>) st
                 in if lastchunk then
                      (case hs ''x-zipline-partial-filename'' of
                         None \<Rightarrow> (Thrown ''TypeError'', st1)
                       | Some filename \<Rightarrow>
                           (let file = partial_record env cfg u hs s filename (next_file_id st1);
                                st2 = create_file file st1;
                                responseUrl = pick_domain env cfg u hs 0 @ route_prefix cfg
                                              @ encodeURI env (f_name file);
                                st3 = add_effect (WorkerSpawned
                                        \<lparr>w_fileId = f_id file, w_filename = f_name file,
                                         w_mimetype = f_mimetype file,
                                         w_identifier = identifier, w_lastchunk = lastchunk,
                                         w_totalBytes = total, w_expiresAt = s_expiry s,
                                         w_format = s_format s,
                                         w_fileMaxViews = s_maxViews s\<rparr>) st2
                            in (JsonPending [responseUrl], st3)))
                    else (JsonSuccess, st1))))"

subsection \<open>The single-shot path (lines 239 to 370)\<close>

definition size_limit :: "config \<Rightarrow> user \<Rightarrow> nat" where
  "size_limit cfg u = (if administrator u then admin_limit cfg else user_limit cfg)"

text \<open>Line 269: \<^verbatim>\<open>req.headers['x-zipline-filename'] || decodedName\<close>.\<close>

definition requested_name :: "headers \<Rightarrow> string \<Rightarrow> string" where
  "requested_name hs decodedName =
     (if truthy_hdr hs ''x-zipline-filename'' then hdr_text hs ''x-zipline-filename''
      else decodedName)"

text \<open>Lines 255 to 276: the checks on file \<open>i\<close>. The result is the response of the
  check that fails, or the decoded name, the extension and the formatted name.\<close>

definition validate_file ::
  "env \<Rightarrow> config \<Rightarrow> user \<Rightarrow> headers \<Rightarrow> settings \<Rightarrow> nat \<Rightarrow> upfile \<Rightarrow> state
   \<Rightarrow> http_response + (string \<times> string \<times> string)" where
  "validate_file env cfg u hs s i file st =
     (if fsize file > size_limit cfg u
      then Inl (BadRequest (''file['' @ show_nat i @ '']: size too big''))
      else if originalname file = []
      then Inl (BadRequest (''file['' @ show_nat i @ '']: no filename''))
      else
        (case decodeURI env (originalname file) of
           None \<Rightarrow> Inl (Thrown ''URIError'')
         | Some decodedName \<Rightarrow>
             (let ext = ext_of decodedName
              in if ext \<in> set (disabled_extensions cfg)
                 then Inl (BadRequest (''file['' @ show_nat i
                             @ '']: disabled extension recieved: '' @ ext))
                 else
                   (let fileName = formatFileName env i (s_format s) decodedName
                    in if (s_format s = ''name'' \<or> truthy_hdr hs ''x-zipline-filename'')
                          \<and> name_in_use (requested_name hs decodedName) st
                       then Inl (BadRequest (''file['' @ show_nat i
                                   @ '']: filename already exists: '' @ [CHR 0x27]
                                   @ decodedName @ [CHR 0x27]))
                       else Inr (decodedName, ext, fileName)))))"

text \<open>Lines 283 to 294: the declared mimetype, or the one guessed from the extension.\<close>

definition effective_mimetype ::
  "env \<Rightarrow> config \<Rightarrow> upfile \<Rightarrow> string \<Rightarrow> response \<Rightarrow> string \<times> response" where
  "effective_mimetype env cfg file decodedName resp =
     (if mimetype file = ''application/octet-stream'' \<and> assume_mimetypes cfg then
        (case guess env (replace_first ''.'' [] (pathExt env decodedName)) of
           None \<Rightarrow> (mimetype file, resp\<lparr>r_assumed_mimetype := Some AssumedFalse\<rparr>)
         | Some mime \<Rightarrow>
             if mime = [] then (mimetype file, resp\<lparr>r_assumed_mimetype := Some AssumedFalse\<rparr>)
             else (mime, resp\<lparr>r_assumed_mimetype := Some (Assumed mime)\<rparr>))
      else (mimetype file, resp))"

text \<open>Line 296.\<close>

definition compression_used :: "settings \<Rightarrow> upfile \<Rightarrow> bool" where
  "compression_used s file =
     (truthy_nullable (s_percent s) \<and> prefix ''image/'' (mimetype file))"

text \<open>Lines 298 to 313: the row of a single-shot file.\<close>

definition new_record ::
  "env \<Rightarrow> user \<Rightarrow> headers \<Rightarrow> settings \<Rightarrow> upfile \<Rightarrow> string \<Rightarrow> string \<Rightarrow> string \<Rightarrow> string
   \<Rightarrow> int \<Rightarrow> file_rec" where
  "new_record env u hs s file decodedName ext fileName mt i =
     \<lparr>f_id = i,
      f_name = fileName @ (if compression_used s file then ''.jpg''
                           else (if ext \<noteq> [] then ''.'' else []) @ ext),
      f_mimetype = (if truthy_hdr hs ''uploadtext'' then ''text/plain''
                    else if compression_used s file then ''image/jpeg'' else mt),
      f_userId = uid u,
      f_embed = truthy_hdr hs ''embed'',
      f_password = (if truthy_hdr hs ''password''
                    then Some (hashPassword env (hdr_text hs ''password'')) else None),
      f_expiresAt = s_expiry s,
      f_maxViews = s_maxViews s,
      f_originalName = (if truthy_hdr hs ''original-name'' then Some decodedName else None),
      f_size = Some (fsize file),
      f_folderId = (if truthy_nullable (s_folderToAdd s) then s_folderToAdd s else None)\<rparr>"

text \<open>Line 315.\<close>

definition zws_requested :: "headers \<Rightarrow> bool" where
  "zws_requested hs =
     (case hs ''zws'' of None \<Rightarrow> False | Some v \<Rightarrow> contains (toLowerCase v) ''true'')"

text \<open>Lines 318 to 326: the call of \<^verbatim>\<open>datasource.save\<close>.\<close>

definition save_blob :: "env \<Rightarrow> settings \<Rightarrow> upfile \<Rightarrow> file_rec \<Rightarrow> state \<Rightarrow> state" where
  "save_blob env s file fileUpload st =
     (if compression_used s file
      then add_effect (BlobSaved (f_name fileUpload)
                         (compress env (buffer file) (s_percent s)) ''image/jpeg'') st
      else add_effect (BlobSaved (f_name fileUpload) (buffer file) (mimetype file)) st)"

text \<open>Lines 353 to 362: the best-effort removal of the GPS data.\<close>

definition gps_attempted :: "config \<Rightarrow> file_rec \<Rightarrow> bool" where
  "gps_attempted cfg fileUpload =
     (exif_enabled cfg \<and> exif_remove_gps cfg \<and> prefix ''image/'' (f_mimetype fileUpload))"

definition strip_gps ::
  "env \<Rightarrow> config \<Rightarrow> file_rec \<Rightarrow> state \<Rightarrow> response \<Rightarrow> response \<times> state" where
  "strip_gps env cfg fileUpload st resp =
     (if gps_attempted cfg fileUpload then
        (if removeGPSData env fileUpload
         then (resp\<lparr>r_removed_gps := Some True\<rparr>, add_effect (GpsRemoved (f_id fileUpload)) st)
         else (resp\<lparr>r_removed_gps := Some False\<rparr>, st))
      else (resp, st))"

text \<open>Lines 315 to 316: the alias of the row, when one is asked for.\<close>

definition invis_of :: "env \<Rightarrow> config \<Rightarrow> headers \<Rightarrow> file_rec \<Rightarrow> string option" where
  "invis_of env cfg hs fileUpload =
     (if zws_requested hs
      then Some (createInvisImage env (invis_length cfg) (f_id fileUpload))
      else None)"

text \<open>Lines 338 to 340: the last segment of the URL.\<close>

definition link_of :: "env \<Rightarrow> string option \<Rightarrow> file_rec \<Rightarrow> string" where
  "link_of env invis fileUpload =
     (case invis of
        None \<Rightarrow> encodeURI env (f_name fileUpload)
      | Some t \<Rightarrow> t)"

text \<open>Lines 278 to 362: what the loop does with a file that passed the checks.\<close>

definition store_file ::
  "env \<Rightarrow> config \<Rightarrow> user \<Rightarrow> headers \<Rightarrow> settings \<Rightarrow> nat \<Rightarrow> upfile \<Rightarrow> string \<Rightarrow> string
   \<Rightarrow> string \<Rightarrow> state \<Rightarrow> response \<Rightarrow> response \<times> state" where
  "store_file env cfg u hs s i file decodedName ext fileName st resp =
     (let mt = fst (effective_mimetype env cfg file decodedName resp);
          resp1 = snd (effective_mimetype env cfg file decodedName resp);
          fileUpload = new_record env u hs s file decodedName ext fileName mt (next_file_id st);
          st1 = create_file fileUpload st;
          invis = invis_of env cfg hs fileUpload;
          st2 = (case invis of
                   None \<Rightarrow> st1
                 | Some t \<Rightarrow> add_effect (InvisCreated (f_id fileUpload) t) st1);
          st3 = save_blob env s file fileUpload st2;
          domain = pick_domain env cfg u hs i;
          responseUrl = domain @ route_prefix cfg @ link_of env invis fileUpload;
          resp2 = resp1\<lparr>r_files := r_files resp1 @ [responseUrl]\<rparr>;
          st4 = (if discord_upload cfg
                 then add_effect (UploadNotified (f_id fileUpload)
                                    (domain @ ''/r/'' @ link_of env invis fileUpload)
                                    responseUrl) st3
                 else st3)
      in strip_gps env cfg fileUpload st4 resp2)"

text \<open>Lines 254 to 363: the loop over \<^verbatim>\<open>req.files\<close>, from index \<open>i\<close>.\<close>

fun upload_loop ::
  "env \<Rightarrow> config \<Rightarrow> user \<Rightarrow> headers \<Rightarrow> settings \<Rightarrow> nat \<Rightarrow> upfile list \<Rightarrow> state \<Rightarrow> response
   \<Rightarrow> (http_response + response) \<times> state" where
  "upload_loop env cfg u hs s i [] st resp = (Inr resp, st)"
| "upload_loop env cfg u hs s i (file # rest) st resp =
     (case validate_file env cfg u hs s i file st of
        Inl r \<Rightarrow> (Inl r, st)
      | Inr (decodedName, ext, fileName) \<Rightarrow>
          (case store_file env cfg u hs s i file decodedName ext fileName st resp of
             (resp', st') \<Rightarrow> upload_loop env cfg u hs s (Suc i) rest st' resp'))"

text \<open>\<^verbatim>\<open>xs.join(',')\<close>.\<close>

fun join_comma :: "string list \<Rightarrow> string" where
  "join_comma [] = []"
| "join_comma [x] = x"
| "join_comma (x # y # ys) = x @ '','' @ join_comma (y # ys)"

definition single_shot ::
  "env \<Rightarrow> config \<Rightarrow> user \<Rightarrow> headers \<Rightarrow> upfile list option \<Rightarrow> settings \<Rightarrow> state \<Rightarrow> response
   \<Rightarrow> http_response \<times> state" where
  "single_shot env cfg u hs fs s st resp =
     (case fs of
        None \<Rightarrow> (BadRequest ''no files'', st)
      | Some l \<Rightarrow>
          if l = [] then (BadRequest ''no files'', st)
          else (case upload_loop env cfg u hs s 0 l st resp of
                  (Inl r, st') \<Rightarrow> (r, st')
                | (Inr resp', st') \<Rightarrow>
                    if truthy_hdr hs ''no-json'' then (PlainText (join_comma (r_files resp')), st')
                    else (Json resp', st')))"

subsection \<open>The handler\<close>

text \<open>Lines 108 to 137: what the headers ask for.\<close>

definition settings_of :: "env \<Rightarrow> config \<Rightarrow> headers \<Rightarrow> int option \<Rightarrow> settings" where
  "settings_of env cfg hs expiry =
     \<lparr>s_format = request_format cfg hs,
      s_percent = header_number env hs ''image-compression-percent'',
      s_expiry = expiry,
      s_maxViews = header_number env hs ''max-views'',
      s_folderToAdd = header_number env hs ''x-zipline-folder''\<rparr>"

text \<open>Lines 108 to 371.\<close>

definition after_expiry ::
  "env \<Rightarrow> config \<Rightarrow> user \<Rightarrow> headers \<Rightarrow> upfile list option \<Rightarrow> response \<Rightarrow> int option \<Rightarrow> state
   \<Rightarrow> http_response \<times> state" where
  "after_expiry env cfg u hs fs resp expiry st =
     (let s = settings_of env cfg hs expiry
      in case check_compression_percent (s_percent s) of
           Some m \<Rightarrow> (BadRequest m, st)
         | None \<Rightarrow>
             (case check_max_views (s_maxViews s) of
                Some m \<Rightarrow> (BadRequest m, st)
              | None \<Rightarrow>
                  (case folder_lookup u (s_folderToAdd s) st of
                     Inl m \<Rightarrow> (BadRequest m, st)
                   | Inr fid \<Rightarrow>
                       if truthy_hdr hs ''content-range'' \<and> chunks_enabled cfg
                       then chunked env cfg u hs fs s st
                       else single_shot env cfg u hs fs s st (with_folder fid resp))))"

text \<open>Lines 72 to 106: multer, then the two expiry sources.\<close>

definition after_ratelimit ::
  "env \<Rightarrow> config \<Rightarrow> user \<Rightarrow> request \<Rightarrow> state \<Rightarrow> http_response \<times> state" where
  "after_ratelimit env cfg u req st =
     (case multer req of
        Inl m \<Rightarrow> (Thrown m, st)
      | Inr fs \<Rightarrow>
          (case client_expiry env (req_headers req) of
             Inl m \<Rightarrow> (BadRequest m, st)
           | Inr requested \<Rightarrow>
               (case default_expiry env cfg requested of
                  Inl m \<Rightarrow> (BadRequest m, st)
                | Inr expiry \<Rightarrow>
                    after_expiry env cfg u (req_headers req) fs
                      (empty_response\<lparr>r_expiresAt := requested\<rparr>) expiry st)))"

text \<open>The whole of \<^verbatim>\<open>handler\<close>.\<close>

definition handler :: "env \<Rightarrow> config \<Rightarrow> request \<Rightarrow> state \<Rightarrow> http_response \<times> state" where
  "handler env cfg req st =
     (if \<not> truthy_hdr (req_headers req) ''authorization''
      then (Forbidden ''no authorization'', st)
      else
        (case findFirstUser (hdr_text (req_headers req) ''authorization'') (users st) of
           None \<Rightarrow> (Forbidden ''authorization incorrect'', st)
         | Some u \<Rightarrow>
             (case ratelimit_check env cfg u (req_headers req) st of
                (Some r, st1) \<Rightarrow> (r, st1)
              | (None, st1) \<Rightarrow> after_ratelimit env cfg u req st1)))"

subsection \<open>A concrete installation\<close>

text \<open>A small installation on which the theorems below are exercised: one administrator
  and one standard user, a parser of unsigned decimal numerals in the place of
  \<^verbatim>\<open>Number\<close> and of \<^verbatim>\<open>parseExpiry\<close>, and a GPS removal that always throws.\<close>

fun digits_value :: "string \<Rightarrow> nat \<Rightarrow> nat option" where
  "digits_value [] acc = Some acc"
| "digits_value (c # cs) acc =
     (if (48::nat) \<le> of_char c \<and> of_char c \<le> (57::nat)
      then digits_value cs (10 * acc + (of_char c - 48)) else None)"

definition decimal_number :: "string \<Rightarrow> jsnum" where
  "decimal_number s = (case digits_value s 0 of None \<Rightarrow> NaN | Some n \<Rightarrow> Fin (real n))"

definition decimal_expiry :: "string \<Rightarrow> string + int" where
  "decimal_expiry s =
     (case digits_value s 0 of None \<Rightarrow> Inl ''invalid date'' | Some n \<Rightarrow> Inr (int n))"

definition example_env :: env where
  "example_env =
     \<lparr>now = 1000,
      jsNumber = decimal_number,
      parseExpiry = decimal_expiry,
      formatFileName = (\<lambda>i fmt n. if fmt = ''name'' then takeWhile (\<lambda>c. c \<noteq> CHR ''.'') n
                                  else ''f'' @ show_nat i),
      decodeURI = Some,
      encodeURI = (\<lambda>n. n),
      hashPassword = (\<lambda>p. ''#'' @ p),
      guess = (\<lambda>e. if e = ''png'' then Some ''image/png'' else None),
      pathExt = (\<lambda>n. if ext_of n = [] then [] else ''.'' @ ext_of n),
      compress = (\<lambda>b q. take 1 b),
      createInvisImage = (\<lambda>l i. ''zw''),
      removeGPSData = (\<lambda>r. False),
      random_index = (\<lambda>i n. 0)\<rparr>"

definition example_cfg :: config where
  "example_cfg =
     \<lparr>ratelimit_admin = 60,
      ratelimit_user = 30,
      default_expiration = None,
      default_format = ''random'',
      name_formats = [''uuid'', ''date'', ''random'', ''name'', ''gfycat''],
      chunks_enabled = True,
      temp_directory = ''/tmp'',
      return_https = False,
      route = ''/u'',
      admin_limit = 100,
      user_limit = 10,
      disabled_extensions = [''exe''],
      assume_mimetypes = True,
      invis_length = 4,
      discord_upload = False,
      exif_enabled = True,
      exif_remove_gps = True,
      schema_default_mimetype = ''image/png''\<rparr>"

definition example_admin :: user where
  "example_admin =
     \<lparr>uid = 1, username = ''root'', token = ''adm'', administrator = True,
      ratelimit = Some 500, domains = []\<rparr>"

definition example_member :: user where
  "example_member =
     \<lparr>uid = 2, username = ''ann'', token = ''usr'', administrator = False,
      ratelimit = None, domains = []\<rparr>"

definition example_state :: state where
  "example_state =
     \<lparr>users = [example_admin, example_member], folders = [], files = [],
      next_file_id = 1, effects = []\<rparr>"

definition example_image :: upfile where
  "example_image =
     \<lparr>originalname = ''a.png'', mimetype = ''image/png'', fsize = 3, buffer = [1, 2, 3]\<rparr>"

definition example_text :: upfile where
  "example_text =
     \<lparr>originalname = ''b.txt'', mimetype = ''text/plain'', fsize = 2, buffer = [4, 5]\<rparr>"

definition example_request :: "(string \<times> string) list \<Rightarrow> upfile list \<Rightarrow> request" where
  "example_request hs fs = \<lparr>req_headers = map_of hs, multer = Inr (Some fs)\<rparr>"

definition example_big :: upfile where
  "example_big =
     \<lparr>originalname = ''big.txt'', mimetype = ''text/plain'', fsize = 11, buffer = [6]\<rparr>"

definition example_blob :: upfile where
  "example_blob =
     \<lparr>originalname = ''c.png'', mimetype = ''application/octet-stream'', fsize = 1,
      buffer = [7]\<rparr>"


definition example_headers :: "string \<Rightarrow> headers" where
  "example_headers tok = map_of [(''authorization'', tok), (''host'', ''h'')]"


definition example_settings :: "headers \<Rightarrow> settings" where
  "example_settings hs = settings_of example_env example_cfg hs None"


subsection \<open>Notions the properties are stated with\<close>

text \<open>The effects on the file table, the datasource, the temporary directory, the
  workers and the notification channel: every effect but an update of the user table.\<close>

fun touches_files :: "effect \<Rightarrow> bool" where
  "touches_files (UserUpdated _ _) = False"
| "touches_files _ = True"

definition file_effects :: "state \<Rightarrow> effect list" where
  "file_effects st = filter touches_files (effects st)"

text \<open>The request gets past lines 23 to 106: it is authenticated and not rate-limited,
  multer parsed it, and both expiry sources parsed.\<close>

definition reaches_header_checks :: "env \<Rightarrow> config \<Rightarrow> request \<Rightarrow> state \<Rightarrow> bool" where
  "reaches_header_checks env cfg req st =
     (truthy_hdr (req_headers req) ''authorization'' \<and>
      (case findFirstUser (hdr_text (req_headers req) ''authorization'') (users st) of
         None \<Rightarrow> False
       | Some u \<Rightarrow>
           fst (ratelimit_check env cfg u (req_headers req) st) = None \<and>
           (case multer req of
              Inl m \<Rightarrow> False
            | Inr fs \<Rightarrow>
                (case client_expiry env (req_headers req) of
                   Inl m \<Rightarrow> False
                 | Inr requested \<Rightarrow>
                     (case default_expiry env cfg requested of
                        Inl m \<Rightarrow> False
                      | Inr expiry \<Rightarrow> True)))))"

text \<open>The request gets past lines 23 to 137, to the choice between the chunked and the
  single-shot path.\<close>

definition reaches_routing :: "env \<Rightarrow> config \<Rightarrow> request \<Rightarrow> state \<Rightarrow> bool" where
  "reaches_routing env cfg req st =
     (reaches_header_checks env cfg req st \<and>
      check_compression_percent
        (header_number env (req_headers req) ''image-compression-percent'') = None \<and>
      check_max_views (header_number env (req_headers req) ''max-views'') = None \<and>
      (case findFirstUser (hdr_text (req_headers req) ''authorization'') (users st) of
         None \<Rightarrow> False
       | Some u \<Rightarrow>
           (case folder_lookup u (header_number env (req_headers req) ''x-zipline-folder'')
                   (snd (ratelimit_check env cfg u (req_headers req) st)) of
              Inl m \<Rightarrow> False
            | Inr fid \<Rightarrow> True)))"

text \<open>The validation of a single-shot file, step by step and in order. A step either
  rejects the file with a reason, or it raises an error: between the check of the
  filename and the check of the extension the name is decoded, and a name that does not
  decode raises \<open>URIError\<close>.\<close>

datatype verdict = Rejected string | Raised string

text \<open>The extension of a name: what follows its last dot, nothing when it has no dot.\<close>

definition extension :: "string \<Rightarrow> string" where
  "extension n =
     (if CHR ''.'' \<in> set n then rev (takeWhile (\<lambda>c. c \<noteq> CHR ''.'') (rev n)) else [])"

text \<open>The steps, each with whether the file gets past it against the file table
  \<open>table\<close>, and the verdict when it does not. The limit on the size is the one of the
  user's class. The name looked up by the last step is the one the request asks for:
  the filename override when the header gives one, the decoded original name
  otherwise.\<close>

definition validation_checks ::
  "env \<Rightarrow> config \<Rightarrow> user \<Rightarrow> headers \<Rightarrow> string \<Rightarrow> file_rec list \<Rightarrow> upfile
   \<Rightarrow> (bool \<times> verdict) list" where
  "validation_checks env cfg u hs fmt table f =
     (let decoded = (case decodeURI env (originalname f) of None \<Rightarrow> [] | Some d \<Rightarrow> d);
          override = (case hs ''x-zipline-filename'' of None \<Rightarrow> [] | Some v \<Rightarrow> v);
          asked = (if override = [] then decoded else override)
      in [(fsize f \<le> (if administrator u then admin_limit cfg else user_limit cfg),
           Rejected ''size too big''),
          (originalname f \<noteq> [],
           Rejected ''no filename''),
          (decodeURI env (originalname f) \<noteq> None,
           Raised ''URIError''),
          (extension decoded \<notin> set (disabled_extensions cfg),
           Rejected (''disabled extension recieved: '' @ extension decoded)),
          (\<not> ((fmt = ''name'' \<or> override \<noteq> []) \<and> asked \<in> f_name ` set table),
           Rejected (''filename already exists: '' @ [CHR 0x27] @ decoded @ [CHR 0x27]))])"


definition all_checks_pass ::
  "env \<Rightarrow> config \<Rightarrow> user \<Rightarrow> headers \<Rightarrow> string \<Rightarrow> file_rec list \<Rightarrow> upfile \<Rightarrow> bool" where
  "all_checks_pass env cfg u hs fmt table f =
     list_all fst (validation_checks env cfg u hs fmt table f)"

text \<open>Every created row, in the order of creation, belongs to the next file of the
  batch, and that file passed every check against the table as it stood just before
  the row was created.\<close>

fun created_after_validation ::
  "env \<Rightarrow> config \<Rightarrow> user \<Rightarrow> headers \<Rightarrow> string \<Rightarrow> file_rec list \<Rightarrow> file_rec list
   \<Rightarrow> upfile list \<Rightarrow> bool" where
  "created_after_validation env cfg u hs fmt table [] fs = True"
| "created_after_validation env cfg u hs fmt table (r # rs) [] = False"
| "created_after_validation env cfg u hs fmt table (r # rs) (f # fs) =
     (all_checks_pass env cfg u hs fmt table f
      \<and> created_after_validation env cfg u hs fmt (table @ [r]) rs fs)"

text \<open>In a sequence of effects, every save of a blob under a name comes after the
  creation of a row of that name; \<open>created\<close> holds the names created so far.\<close>

fun record_before_blob :: "string list \<Rightarrow> effect list \<Rightarrow> bool" where
  "record_before_blob created [] = True"
| "record_before_blob created (FileCreated r # es) = record_before_blob (f_name r # created) es"
| "record_before_blob created (BlobSaved n b t # es) =
     (n \<in> set created \<and> record_before_blob created es)"
| "record_before_blob created (e # es) = record_before_blob created es"

text \<open>The stored mimetype as the spec words its priority: the treat-as-text override,
  then the compression, then the declared mimetype, with the guess from the extension
  for the generic declared type.\<close>

definition compression_applies :: "env \<Rightarrow> headers \<Rightarrow> upfile \<Rightarrow> bool" where
  "compression_applies env hs f =
     (truthy_nullable (header_number env hs ''image-compression-percent'')
      \<and> prefix ''image/'' (mimetype f))"

definition guessed_mimetype :: "env \<Rightarrow> upfile \<Rightarrow> string option" where
  "guessed_mimetype env f =
     (case decodeURI env (originalname f) of
        None \<Rightarrow> None
      | Some d \<Rightarrow>
          (case guess env (replace_first ''.'' [] (pathExt env d)) of
             None \<Rightarrow> None
           | Some m \<Rightarrow> if m = [] then None else Some m))"

definition stored_mimetype :: "env \<Rightarrow> config \<Rightarrow> headers \<Rightarrow> upfile \<Rightarrow> string" where
  "stored_mimetype env cfg hs f =
     (if truthy_hdr hs ''uploadtext'' then ''text/plain''
      else if compression_applies env hs f then ''image/jpeg''
      else if mimetype f = ''application/octet-stream'' \<and> assume_mimetypes cfg
      then (case guessed_mimetype env f of None \<Rightarrow> mimetype f | Some m \<Rightarrow> m)
      else mimetype f)"

text \<open>The byte ranges written so far for an upload identifier, and the spec's condition
  on them: every offset below the total \<open>n\<close> lies in exactly one range from \<open>start\<close> up to,
  not including, \<open>end\<close>.\<close>

fun stored_ranges :: "string \<Rightarrow> effect list \<Rightarrow> (real \<times> real) list" where
  "stored_ranges ident [] = []"
| "stored_ranges ident (TempWritten t # es) =
     (case (t_start t, t_end t) of
        (Some (Fin a), Some (Fin b)) \<Rightarrow>
          (if t_identifier t = Some ident then (a, b) # stored_ranges ident es
           else stored_ranges ident es)
      | _ \<Rightarrow> stored_ranges ident es)"
| "stored_ranges ident (e # es) = stored_ranges ident es"

definition covered_exactly_once :: "(real \<times> real) list \<Rightarrow> nat \<Rightarrow> bool" where
  "covered_exactly_once ranges n =
     list_all (\<lambda>off. length (filter (\<lambda>r. fst r \<le> real off \<and> real off < snd r) ranges) = 1)
       [0..<n]"

text \<open>The URL of a single-shot file at index \<open>i\<close> whose row is \<open>r\<close>.\<close>

definition response_url ::
  "env \<Rightarrow> config \<Rightarrow> user \<Rightarrow> headers \<Rightarrow> nat \<Rightarrow> file_rec \<Rightarrow> string" where
  "response_url env cfg u hs i r =
     pick_domain env cfg u hs i @ route_prefix cfg @ link_of env (invis_of env cfg hs r) r"

text \<open>The row the loop creates for a file \<open>f\<close> that passed the checks, with decoded
  name \<open>d\<close>, at index \<open>i\<close> and under the identifier \<open>k\<close>.\<close>

definition stored_row ::
  "env \<Rightarrow> config \<Rightarrow> user \<Rightarrow> headers \<Rightarrow> settings \<Rightarrow> nat \<Rightarrow> upfile \<Rightarrow> string \<Rightarrow> int \<Rightarrow> file_rec" where
  "stored_row env cfg u hs s i f d k =
     new_record env u hs s f d (ext_of d) (formatFileName env i (s_format s) d)
       (fst (effective_mimetype env cfg f d empty_response)) k"

text \<open>The row \<open>r\<close> is the one the loop creates for the file \<open>f\<close>.\<close>

abbreviation row_of_file ::
  "env \<Rightarrow> config \<Rightarrow> user \<Rightarrow> headers \<Rightarrow> settings \<Rightarrow> file_rec \<Rightarrow> upfile \<Rightarrow> bool" where
  "row_of_file env cfg u hs s r f \<equiv>
     (\<exists>d j k. decodeURI env (originalname f) = Some d \<and> r = stored_row env cfg u hs s j f d k)"

section \<open>Properties\<close>

subsection \<open>The user table is touched by the rate-limit section only\<close>

lemma users_add_effect: "users (add_effect e st) = users st"
  by (simp add: add_effect_def)

lemma users_create_file: "users (create_file r st) = users st"
  by (simp add: create_file_def)

lemma users_save_blob: "users (save_blob env s f r st) = users st"
  by (simp add: save_blob_def users_add_effect)

lemma users_strip_gps: "users (snd (strip_gps env cfg r st resp)) = users st"
  by (simp add: strip_gps_def users_add_effect)

lemma users_store_file:
  "users (snd (store_file env cfg u hs s i f d e n st resp)) = users st"
  by (simp add: store_file_def Let_def users_strip_gps users_add_effect users_save_blob
      users_create_file split: option.split)

lemma users_upload_loop:
  "users (snd (upload_loop env cfg u hs s i fs st resp)) = users st"
proof (induction fs arbitrary: i st resp)
  case Nil
  show ?case by simp
next
  case (Cons f rest)
  show ?case
  proof (cases "validate_file env cfg u hs s i f st")
    case (Inl r)
    then show ?thesis by simp
  next
    case (Inr v)
    obtain d e n where v: "v = (d, e, n)" by (cases v) auto
    obtain resp' st' where sf: "store_file env cfg u hs s i f d e n st resp = (resp', st')"
      by (cases "store_file env cfg u hs s i f d e n st resp") auto
    have "users st' = users st"
      using users_store_file [of env cfg u hs s i f d e n st resp] sf by simp
    with Inr v sf Cons.IH [of "Suc i" st' resp'] show ?thesis by simp
  qed
qed

lemma users_single_shot:
  "users (snd (single_shot env cfg u hs fs s st resp)) = users st"
proof (cases fs)
  case None
  then show ?thesis by (simp add: single_shot_def)
next
  case (Some l)
  obtain r st' where ul: "upload_loop env cfg u hs s 0 l st resp = (r, st')"
    by (cases "upload_loop env cfg u hs s 0 l st resp") auto
  have "users st' = users st"
    using users_upload_loop [of env cfg u hs s 0 l st resp] ul by simp
  with Some ul show ?thesis
    by (simp add: single_shot_def split: sum.split)
qed

lemma users_chunked:
  "users (snd (chunked env cfg u hs fs s st)) = users st"
  by (simp add: chunked_def Let_def users_add_effect users_create_file
      split: option.split list.split)

lemma users_after_expiry:
  "users (snd (after_expiry env cfg u hs fs resp e st)) = users st"
  by (simp add: after_expiry_def Let_def users_chunked users_single_shot
      split: option.split sum.split)

lemma users_after_ratelimit:
  "users (snd (after_ratelimit env cfg u req st)) = users st"
  by (simp add: after_ratelimit_def users_after_expiry split: sum.split)

subsection \<open>Only the rate-limit section answers with the rate-limit status\<close>

lemma validate_file_status:
  "validate_file env cfg u hs s i f st = Inl r \<Longrightarrow> status_code r = 400 \<or> status_code r = 500"
  by (auto simp: validate_file_def Let_def split: if_splits option.splits)

lemma upload_loop_status:
  "fst (upload_loop env cfg u hs s i fs st resp) = Inl r
   \<Longrightarrow> status_code r = 400 \<or> status_code r = 500"
proof (induction fs arbitrary: i st resp)
  case Nil
  then show ?case by simp
next
  case (Cons f rest)
  show ?case
  proof (cases "validate_file env cfg u hs s i f st")
    case (Inl r')
    with Cons.prems have "r' = r" by simp
    with Inl validate_file_status show ?thesis by blast
  next
    case (Inr v)
    obtain d e n where v: "v = (d, e, n)" by (cases v) auto
    obtain resp' st' where sf: "store_file env cfg u hs s i f d e n st resp = (resp', st')"
      by (cases "store_file env cfg u hs s i f d e n st resp") auto
    from Cons.prems Inr v sf
    have "fst (upload_loop env cfg u hs s (Suc i) rest st' resp') = Inl r" by simp
    then show ?thesis by (rule Cons.IH)
  qed
qed

lemma single_shot_status:
  "status_code (fst (single_shot env cfg u hs fs s st resp)) \<in> {200, 400, 500}"
proof (cases fs)
  case None
  then show ?thesis by (simp add: single_shot_def)
next
  case (Some l)
  obtain r st' where ul: "upload_loop env cfg u hs s 0 l st resp = (r, st')"
    by (cases "upload_loop env cfg u hs s 0 l st resp") auto
  show ?thesis
  proof (cases r)
    case (Inl e)
    with ul have "status_code e = 400 \<or> status_code e = 500"
      using upload_loop_status [of env cfg u hs s 0 l st resp e] by simp
    with Some ul Inl show ?thesis by (auto simp: single_shot_def)
  next
    case (Inr resp')
    with Some ul show ?thesis by (simp add: single_shot_def)
  qed
qed

lemma chunked_status:
  "status_code (fst (chunked env cfg u hs fs s st)) \<in> {200, 400, 500}"
  by (simp add: chunked_def Let_def split: option.split list.split)

lemma after_expiry_status:
  "status_code (fst (after_expiry env cfg u hs fs resp e st)) \<in> {200, 400, 500}"
  using single_shot_status [of env cfg u hs fs "settings_of env cfg hs e" st]
    chunked_status [of env cfg u hs fs "settings_of env cfg hs e" st]
  by (simp add: after_expiry_def Let_def split: option.split sum.split)

lemma after_ratelimit_status:
  "status_code (fst (after_ratelimit env cfg u req st)) \<in> {200, 400, 500}"
  using after_expiry_status [of env cfg u "req_headers req"]
  by (simp add: after_ratelimit_def split: sum.split)

subsection \<open>Finding the user again after the update\<close>

lemma find_user_after_update:
  "findFirstUser tok us = Some u \<Longrightarrow>
   findFirstUser tok (map (\<lambda>v. if uid v = uid u then v\<lparr>ratelimit := r\<rparr> else v) us)
     = Some (u\<lparr>ratelimit := r\<rparr>)"
  by (induction us) (auto simp: findFirstUser_def)

lemma find_user_update_ratelimit:
  "findFirstUser tok (users st) = Some u \<Longrightarrow>
   findFirstUser tok (users (update_ratelimit (uid u) r st)) = Some (u\<lparr>ratelimit := r\<rparr>)"
  by (simp add: update_ratelimit_def find_user_after_update)

subsection \<open>The rate limit\<close>

text \<open>
  C10. A standard user (not an administrator) with no active rate-limit timestamp, that
  is with none or with one that has elapsed, has none after a request without a
  content-range header, whatever cooldown is configured for standard users: the only
  update that would set one sits under a second test that the user is an administrator,
  which fails there. When the timestamp was unset, the request leaves the whole user
  table as it was.
\<close>

theorem standard_user_cooldown_never_set:
  assumes auth: "truthy_hdr (req_headers req) ''authorization''"
    and found: "findFirstUser (hdr_text (req_headers req) ''authorization'') (users st) = Some u"
    and std: "\<not> administrator u"
    and inactive: "case ratelimit u of None \<Rightarrow> True | Some t \<Rightarrow> t \<le> now env"
    and plain: "\<not> truthy_hdr (req_headers req) ''content-range''"
  shows "map_option ratelimit
           (findFirstUser (hdr_text (req_headers req) ''authorization'')
              (users (snd (handler env cfg req st)))) = Some None
       \<and> (ratelimit u = None \<longrightarrow> users (snd (handler env cfg req st)) = users st)"
proof (cases "ratelimit u")
  case None
  have rl: "ratelimit_check env cfg u (req_headers req) st = (None, st)"
    using std None by (simp add: ratelimit_check_def)
  have h: "handler env cfg req st = after_ratelimit env cfg u req st"
    using auth found rl by (simp add: handler_def)
  have "users (snd (handler env cfg req st)) = users st"
    by (simp add: h users_after_ratelimit)
  with found None show ?thesis by simp
next
  case (Some t)
  with inactive have elapsed: "t \<le> now env" by simp
  have rl: "ratelimit_check env cfg u (req_headers req) st
              = (None, update_ratelimit (uid u) None st)"
    using Some elapsed plain by (simp add: ratelimit_check_def)
  have h: "handler env cfg req st
             = after_ratelimit env cfg u req (update_ratelimit (uid u) None st)"
    using auth found rl by (simp add: handler_def)
  have "users (snd (handler env cfg req st)) = users (update_ratelimit (uid u) None st)"
    by (simp add: h users_after_ratelimit)
  then have "map_option ratelimit
           (findFirstUser (hdr_text (req_headers req) ''authorization'')
              (users (snd (handler env cfg req st)))) = Some None"
    using find_user_update_ratelimit [OF found, of None] by simp
  with Some show ?thesis by simp
qed

theorem standard_user_cooldown_never_set_witness:
  "\<not> administrator example_member \<and> ratelimit example_member = None
   \<and> 0 < ratelimit_user example_cfg
   \<and> \<not> truthy_hdr (req_headers
         (example_request [(''authorization'', ''usr''), (''host'', ''h'')] [example_text]))
       ''content-range''
   \<and> users (snd (handler example_env example_cfg
        (example_request [(''authorization'', ''usr''), (''host'', ''h'')] [example_text])
        example_state)) = users example_state
   \<and> map_option ratelimit
        (findFirstUser ''usr''
           (users (snd (handler example_env example_cfg
             (example_request [(''authorization'', ''usr''), (''host'', ''h'')] [example_text])
             example_state)))) = Some None"
proof -
  let ?req = "example_request [(''authorization'', ''usr''), (''host'', ''h'')] [example_text]"
  have a: "truthy_hdr (req_headers ?req) ''authorization''"
    by (simp add: example_request_def truthy_hdr_def)
  have t: "hdr_text (req_headers ?req) ''authorization'' = ''usr''"
    by (simp add: example_request_def hdr_text_def)
  have f: "findFirstUser (hdr_text (req_headers ?req) ''authorization'') (users example_state)
             = Some example_member"
    by (simp add: t findFirstUser_def example_state_def example_admin_def example_member_def)
  have s: "\<not> administrator example_member" by (simp add: example_member_def)
  have n: "ratelimit example_member = None" by (simp add: example_member_def)
  then have i: "case ratelimit example_member of None \<Rightarrow> True
                | Some t \<Rightarrow> t \<le> now example_env" by simp
  have c: "0 < ratelimit_user example_cfg" by (simp add: example_cfg_def)
  have p: "\<not> truthy_hdr (req_headers ?req) ''content-range''"
    by (simp add: example_request_def truthy_hdr_def)
  note r = standard_user_cooldown_never_set [OF a f s i p, of example_cfg]
  show ?thesis using r s n c p unfolding t by blast
qed

text \<open>
  C4, as the code has it. For an administrator whose stored rate-limit timestamp has
  elapsed at request time, a request without a content-range header is not rejected as
  rate-limited: the handler clears the stale timestamp and goes on with the rest of the
  request. It sets no new timestamp while handling that request, whatever the
  administrator cooldown: after the request the administrator's timestamp is unset.
\<close>

theorem expired_limit_cleared_not_renewed:
  assumes auth: "truthy_hdr (req_headers req) ''authorization''"
    and found: "findFirstUser (hdr_text (req_headers req) ''authorization'') (users st) = Some u"
    and adm: "administrator u"
    and lim: "ratelimit u = Some t"
    and elapsed: "t \<le> now env"
    and plain: "\<not> truthy_hdr (req_headers req) ''content-range''"
  shows "handler env cfg req st
           = after_ratelimit env cfg u req (update_ratelimit (uid u) None st)
       \<and> status_code (fst (handler env cfg req st)) \<noteq> 429
       \<and> map_option ratelimit
           (findFirstUser (hdr_text (req_headers req) ''authorization'')
              (users (snd (handler env cfg req st)))) = Some None"
proof -
  have rl: "ratelimit_check env cfg u (req_headers req) st
              = (None, update_ratelimit (uid u) None st)"
    using lim elapsed plain by (simp add: ratelimit_check_def)
  have h: "handler env cfg req st
             = after_ratelimit env cfg u req (update_ratelimit (uid u) None st)"
    using auth found rl by (simp add: handler_def)
  have s: "status_code (fst (handler env cfg req st)) \<noteq> 429"
    using after_ratelimit_status [of env cfg u req "update_ratelimit (uid u) None st"]
    by (auto simp: h)
  have "users (snd (handler env cfg req st)) = users (update_ratelimit (uid u) None st)"
    by (simp add: h users_after_ratelimit)
  then have "map_option ratelimit
           (findFirstUser (hdr_text (req_headers req) ''authorization'')
              (users (snd (handler env cfg req st)))) = Some None"
    using find_user_update_ratelimit [OF found, of None] by simp
  with h s show ?thesis by simp
qed

theorem expired_limit_cleared_not_renewed_witness:
  "administrator example_admin \<and> ratelimit example_admin = Some 500
   \<and> (500::int) \<le> now example_env
   \<and> status_code (fst (handler example_env example_cfg
        (example_request [(''authorization'', ''adm''), (''host'', ''h'')] [example_text])
        example_state)) \<noteq> 429
   \<and> map_option ratelimit
        (findFirstUser ''adm''
           (users (snd (handler example_env example_cfg
             (example_request [(''authorization'', ''adm''), (''host'', ''h'')] [example_text])
             example_state)))) = Some None"
proof -
  let ?req = "example_request [(''authorization'', ''adm''), (''host'', ''h'')] [example_text]"
  have a: "truthy_hdr (req_headers ?req) ''authorization''"
    by (simp add: example_request_def truthy_hdr_def)
  have t: "hdr_text (req_headers ?req) ''authorization'' = ''adm''"
    by (simp add: example_request_def hdr_text_def)
  have f: "findFirstUser (hdr_text (req_headers ?req) ''authorization'') (users example_state)
             = Some example_admin"
    by (simp add: t findFirstUser_def example_state_def example_admin_def)
  have ad: "administrator example_admin" by (simp add: example_admin_def)
  have l: "ratelimit example_admin = Some 500" by (simp add: example_admin_def)
  have e: "(500::int) \<le> now example_env" by (simp add: example_env_def)
  have p: "\<not> truthy_hdr (req_headers ?req) ''content-range''"
    by (simp add: example_request_def truthy_hdr_def)
  note r = expired_limit_cleared_not_renewed [OF a f ad l e p, of example_cfg]
  show ?thesis using r ad l e unfolding t by blast
qed

text \<open>
  C4 as stated fails. The administrator of the example has an elapsed timestamp and the
  administrator cooldown is 60 seconds; after the upload the administrator's timestamp
  is unset, not a fresh one in the future.
\<close>

theorem expired_limit_renewed_counterexample:
  "administrator example_admin
   \<and> ratelimit example_admin = Some 500
   \<and> (500::int) \<le> now example_env
   \<and> 0 < ratelimit_admin example_cfg
   \<and> fst (handler example_env example_cfg
        (example_request [(''authorization'', ''adm''), (''host'', ''h'')] [example_text])
        example_state)
       = Json \<lparr>r_files = [''http://h/u/f0.txt''], r_expiresAt = None, r_removed_gps = None,
               r_assumed_mimetype = None, r_folder = None\<rparr>
   \<and> map ratelimit (users (snd (handler example_env example_cfg
        (example_request [(''authorization'', ''adm''), (''host'', ''h'')] [example_text])
        example_state))) = [None, None]"
  by code_simp

text \<open>
  C5, as the code has it. A request whose content-range header is present and not empty is
  never rejected as rate-limited, and handling it leaves every user's rate-limit
  timestamp as it was: the rate-limit section neither clears nor sets it.
\<close>

theorem chunk_request_skips_rate_limit:
  assumes chunk: "truthy_hdr (req_headers req) ''content-range''"
  shows "status_code (fst (handler env cfg req st)) \<noteq> 429
       \<and> users (snd (handler env cfg req st)) = users st"
proof (cases "truthy_hdr (req_headers req) ''authorization''")
  case False
  then show ?thesis by (simp add: handler_def)
next
  case True
  show ?thesis
  proof (cases "findFirstUser (hdr_text (req_headers req) ''authorization'') (users st)")
    case None
    with True show ?thesis by (simp add: handler_def)
  next
    case (Some u)
    have rl: "ratelimit_check env cfg u (req_headers req) st = (None, st)"
      using chunk by (simp add: ratelimit_check_def)
    have h: "handler env cfg req st = after_ratelimit env cfg u req st"
      using True Some rl by (simp add: handler_def)
    have "status_code (fst (handler env cfg req st)) \<noteq> 429"
      using after_ratelimit_status [of env cfg u req st] by (auto simp: h)
    then show ?thesis by (simp add: h users_after_ratelimit)
  qed
qed

theorem chunk_request_skips_rate_limit_witness:
  "truthy_hdr (req_headers (example_request
       [(''authorization'', ''adm''), (''content-range'', ''bytes 0-2/4'')] [example_text]))
     ''content-range''
   \<and> status_code (fst (handler (example_env\<lparr>now := 100\<rparr>) example_cfg
        (example_request
           [(''authorization'', ''adm''), (''content-range'', ''bytes 0-2/4'')] [example_text])
        example_state)) \<noteq> 429
   \<and> users (snd (handler (example_env\<lparr>now := 100\<rparr>) example_cfg
        (example_request
           [(''authorization'', ''adm''), (''content-range'', ''bytes 0-2/4'')] [example_text])
        example_state)) = users example_state"
proof -
  let ?req = "example_request
       [(''authorization'', ''adm''), (''content-range'', ''bytes 0-2/4'')] [example_text]"
  have c: "truthy_hdr (req_headers ?req) ''content-range''"
    by (simp add: example_request_def truthy_hdr_def)
  note r = chunk_request_skips_rate_limit [OF c, of "example_env\<lparr>now := 100\<rparr>" example_cfg
      example_state]
  show ?thesis using r c by blast
qed

text \<open>
  C5 as stated fails for a content-range header that is present with an empty value: the
  handler tests the header as a condition, and the empty string is false there. The
  administrator of the example, whose timestamp 500 lies 400 milliseconds ahead of the
  clock, sends such a request and is rejected as rate-limited.
\<close>

theorem empty_content_range_counterexample:
  "req_headers (example_request
       [(''authorization'', ''adm''), (''content-range'', [])] [example_text])
     ''content-range'' = Some []
   \<and> fst (handler (example_env\<lparr>now := 100\<rparr>) example_cfg
        (example_request [(''authorization'', ''adm''), (''content-range'', [])] [example_text])
        example_state) = RateLimited 400"
  by code_simp

subsection \<open>The loop over the files, and what the handler does to the file table\<close>

lemma upload_loop_append:
  "upload_loop env cfg u hs s i (pre @ post) st resp =
     (case upload_loop env cfg u hs s i pre st resp of
        (Inl r, st1) \<Rightarrow> (Inl r, st1)
      | (Inr resp1, st1) \<Rightarrow> upload_loop env cfg u hs s (i + length pre) post st1 resp1)"
  by (induction pre arbitrary: i st resp) (auto split: sum.split prod.split)

lemma name_in_use_iff: "name_in_use n st \<longleftrightarrow> n \<in> f_name ` set (files st)"
  by (auto simp: name_in_use_def find_None_iff)



subsection \<open>The extension of a name\<close>

lemma split_on_nonempty: "split_on c s \<noteq> []"
  by (induction s) (auto split: list.split)

lemma split_on_no_separator: "c \<notin> set s \<Longrightarrow> split_on c s = [s]"
  by (induction s) auto

lemma split_on_separator: "c \<in> set s \<Longrightarrow> length (split_on c s) \<noteq> 1"
proof (induction s)
  case Nil
  then show ?case by simp
next
  case (Cons x xs)
  show ?case
  proof (cases "x = c")
    case True
    then show ?thesis using split_on_nonempty [of c xs] by simp
  next
    case False
    with Cons.prems have "c \<in> set xs" by simp
    then have "length (split_on c xs) \<noteq> 1" by (rule Cons.IH)
    with False show ?thesis
      using split_on_nonempty [of c xs] by (auto split: list.split)
  qed
qed

lemma split_on_last:
  "last (split_on c s) = rev (takeWhile (\<lambda>x. x \<noteq> c) (rev s))"
proof (induction s)
  case Nil
  show ?case by simp
next
  case (Cons x xs)
  show ?case
  proof (cases "x = c")
    case True
    then show ?thesis
      using Cons.IH split_on_nonempty [of c xs] by (simp add: takeWhile_append)
  next
    case False
    show ?thesis
    proof (cases "c \<in> set xs")
      case True
      then have len: "length (split_on c xs) \<noteq> 1" by (rule split_on_separator)
      show ?thesis
      proof (cases "split_on c xs")
        case Nil
        with split_on_nonempty [of c xs] show ?thesis by simp
      next
        case (Cons p ps)
        with len have "ps \<noteq> []" by auto
        with False True Cons Cons.IH show ?thesis
          by (auto simp: takeWhile_append)
      qed
    next
      case notin: False
      with False show ?thesis
        by (simp add: split_on_no_separator takeWhile_append)
    qed
  qed
qed

lemma ext_of_extension: "ext_of n = extension n"
proof (cases "CHR ''.'' \<in> set n")
  case True
  then show ?thesis
    using split_on_separator [of "CHR ''.''" n]
    by (simp add: ext_of_def extension_def Let_def split_on_last)
next
  case False
  then show ?thesis
    by (simp add: ext_of_def extension_def Let_def split_on_no_separator)
qed

subsection \<open>The checks of the loop and the steps of the validation\<close>




lemma validate_file_passed:
  "validate_file env cfg u hs s i f st = Inr (d, e, n)
   \<Longrightarrow> all_checks_pass env cfg u hs (s_format s) (files st) f
       \<and> decodeURI env (originalname f) = Some d \<and> e = ext_of d
       \<and> n = formatFileName env i (s_format s) d"
  by (auto simp: all_checks_pass_def validation_checks_def validate_file_def Let_def
      name_in_use_iff size_limit_def requested_name_def truthy_hdr_def hdr_text_def
      ext_of_extension
      split: if_splits option.splits)



lemma effective_mimetype_fst:
  "fst (effective_mimetype env cfg f d resp) = fst (effective_mimetype env cfg f d resp')"
  by (simp add: effective_mimetype_def split: option.split)

lemma effective_mimetype_expiresAt:
  "r_expiresAt (snd (effective_mimetype env cfg f d resp)) = r_expiresAt resp"
  by (simp add: effective_mimetype_def split: option.split)

lemma effective_mimetype_files:
  "r_files (snd (effective_mimetype env cfg f d resp)) = r_files resp"
  by (simp add: effective_mimetype_def split: option.split)

lemma files_add_effect: "files (add_effect e st) = files st"
  by (simp add: add_effect_def)

lemma files_save_blob: "files (save_blob env s f r st) = files st"
  by (simp add: save_blob_def files_add_effect)

lemma files_strip_gps: "files (snd (strip_gps env cfg r st resp)) = files st"
  by (simp add: strip_gps_def files_add_effect)

lemma files_store_file:
  "files (snd (store_file env cfg u hs s i f d e n st resp))
     = files st @ [new_record env u hs s f d e n
                     (fst (effective_mimetype env cfg f d resp)) (next_file_id st)]"
  by (simp add: store_file_def Let_def files_strip_gps files_add_effect files_save_blob
      create_file_def split: option.split)

lemma stored_row_eq:
  "new_record env u hs s f d (ext_of d) (formatFileName env i (s_format s) d)
     (fst (effective_mimetype env cfg f d resp)) k = stored_row env cfg u hs s i f d k"
  using effective_mimetype_fst [of env cfg f d resp empty_response]
  by (simp add: stored_row_def)

lemma upload_loop_files:
  "\<exists>news. files (snd (upload_loop env cfg u hs s i fs st resp)) = files st @ news
     \<and> length news \<le> length fs
     \<and> list_all2 (\<lambda>r f. \<exists>d j k. decodeURI env (originalname f) = Some d
                          \<and> r = stored_row env cfg u hs s j f d k)
         news (take (length news) fs)
     \<and> created_after_validation env cfg u hs (s_format s) (files st) news fs"
proof (induction fs arbitrary: i st resp)
  case Nil
  show ?case by simp
next
  case (Cons f rest)
  show ?case
  proof (cases "validate_file env cfg u hs s i f st")
    case (Inl r)
    then have "files (snd (upload_loop env cfg u hs s i (f # rest) st resp)) = files st @ []"
      by simp
    then show ?thesis by (intro exI [of _ "[]"]) simp
  next
    case (Inr v)
    obtain d e n where v: "v = (d, e, n)" by (cases v) auto
    note ok = validate_file_passed [OF Inr [unfolded v]]
    obtain resp' st' where sf: "store_file env cfg u hs s i f d e n st resp = (resp', st')"
      by (cases "store_file env cfg u hs s i f d e n st resp") auto
    let ?r = "stored_row env cfg u hs s i f d (next_file_id st)"
    have fs': "files st' = files st @ [?r]"
      using files_store_file [of env cfg u hs s i f d e n st resp] sf ok
      by (simp add: stored_row_eq)
    from Cons.IH [of "Suc i" st' resp'] obtain news where
      n1: "files (snd (upload_loop env cfg u hs s (Suc i) rest st' resp')) = files st' @ news"
      and n2: "length news \<le> length rest"
      and n3: "list_all2 (\<lambda>r f. \<exists>d j k. decodeURI env (originalname f) = Some d
                          \<and> r = stored_row env cfg u hs s j f d k)
         news (take (length news) rest)"
      and n4: "created_after_validation env cfg u hs (s_format s) (files st') news rest"
      by blast
    have loop: "upload_loop env cfg u hs s i (f # rest) st resp
                  = upload_loop env cfg u hs s (Suc i) rest st' resp'"
      using Inr v sf by simp
    have a: "files (snd (upload_loop env cfg u hs s i (f # rest) st resp))
               = files st @ (?r # news)"
      using loop n1 fs' by simp
    have b: "length (?r # news) \<le> length (f # rest)" using n2 by simp
    have c: "list_all2 (\<lambda>r f. \<exists>d j k. decodeURI env (originalname f) = Some d
                          \<and> r = stored_row env cfg u hs s j f d k)
         (?r # news) (take (length (?r # news)) (f # rest))"
      using n3 ok by auto
    have d: "created_after_validation env cfg u hs (s_format s) (files st) (?r # news) (f # rest)"
      using n4 ok fs' by simp
    from a b c d show ?thesis by blast
  qed
qed

lemma record_before_blob_append:
  "record_before_blob cr es1 \<Longrightarrow> (\<And>cr'. record_before_blob cr' es2)
   \<Longrightarrow> record_before_blob cr (es1 @ es2)"
  by (induction cr es1 rule: record_before_blob.induct) auto

lemma record_before_blob_user_update:
  "\<forall>e\<in>set es1. \<not> touches_files e \<Longrightarrow> record_before_blob cr (es1 @ es2) = record_before_blob cr es2"
  by (induction cr es1 rule: record_before_blob.induct) auto

lemma effects_add_effect: "effects (add_effect e st) = effects st @ [e]"
  by (simp add: add_effect_def)

lemma effects_create_file: "effects (create_file r st) = effects st @ [FileCreated r]"
  by (simp add: create_file_def)

lemma effects_save_blob:
  "effects (save_blob env s f r st)
     = effects st @ [BlobSaved (f_name r)
                       (if compression_used s f then compress env (buffer f) (s_percent s)
                        else buffer f)
                       (if compression_used s f then ''image/jpeg'' else mimetype f)]"
  by (simp add: save_blob_def effects_add_effect)

lemma effects_strip_gps:
  "effects (snd (strip_gps env cfg r st resp))
     = effects st @ (if gps_attempted cfg r \<and> removeGPSData env r
                     then [GpsRemoved (f_id r)] else [])"
  by (simp add: strip_gps_def effects_add_effect)

lemma effects_store_file:
  "\<exists>es. effects (snd (store_file env cfg u hs s i f d e n st resp)) = effects st @ es
     \<and> (\<forall>cr. record_before_blob cr es)"
proof -
  define r where "r = new_record env u hs s f d e n
                        (fst (effective_mimetype env cfg f d resp)) (next_file_id st)"
  have "effects (snd (store_file env cfg u hs s i f d e n st resp))
          = effects st @ FileCreated r #
              (case invis_of env cfg hs r of None \<Rightarrow> [] | Some t \<Rightarrow> [InvisCreated (f_id r) t])
              @ BlobSaved (f_name r)
                  (if compression_used s f then compress env (buffer f) (s_percent s)
                   else buffer f)
                  (if compression_used s f then ''image/jpeg'' else mimetype f)
              # (if discord_upload cfg
                 then [UploadNotified (f_id r)
                         (pick_domain env cfg u hs i @ ''/r/'' @ link_of env (invis_of env cfg hs r) r)
                         (pick_domain env cfg u hs i @ route_prefix cfg
                            @ link_of env (invis_of env cfg hs r) r)]
                 else [])
              @ (if gps_attempted cfg r \<and> removeGPSData env r then [GpsRemoved (f_id r)] else [])"
    unfolding store_file_def Let_def r_def [symmetric]
    by (simp add: effects_strip_gps effects_save_blob effects_add_effect effects_create_file
        split: option.split)
  moreover have "\<forall>cr. record_before_blob cr
            (FileCreated r #
              (case invis_of env cfg hs r of None \<Rightarrow> [] | Some t \<Rightarrow> [InvisCreated (f_id r) t])
              @ BlobSaved (f_name r)
                  (if compression_used s f then compress env (buffer f) (s_percent s)
                   else buffer f)
                  (if compression_used s f then ''image/jpeg'' else mimetype f)
              # (if discord_upload cfg
                 then [UploadNotified (f_id r)
                         (pick_domain env cfg u hs i @ ''/r/'' @ link_of env (invis_of env cfg hs r) r)
                         (pick_domain env cfg u hs i @ route_prefix cfg
                            @ link_of env (invis_of env cfg hs r) r)]
                 else [])
              @ (if gps_attempted cfg r \<and> removeGPSData env r then [GpsRemoved (f_id r)] else []))"
    by (simp split: option.split)
  ultimately show ?thesis by blast
qed

lemma effects_upload_loop:
  "\<exists>es. effects (snd (upload_loop env cfg u hs s i fs st resp)) = effects st @ es
     \<and> (\<forall>cr. record_before_blob cr es)"
proof (induction fs arbitrary: i st resp)
  case Nil
  show ?case by simp
next
  case (Cons f rest)
  show ?case
  proof (cases "validate_file env cfg u hs s i f st")
    case (Inl r)
    then show ?thesis by simp
  next
    case (Inr v)
    obtain d e n where v: "v = (d, e, n)" by (cases v) auto
    obtain resp' st' where sf: "store_file env cfg u hs s i f d e n st resp = (resp', st')"
      by (cases "store_file env cfg u hs s i f d e n st resp") auto
    from effects_store_file [of env cfg u hs s i f d e n st resp] sf obtain es1 where
      e1: "effects st' = effects st @ es1" and r1: "\<And>cr. record_before_blob cr es1"
      by auto
    from Cons.IH [of "Suc i" st' resp'] obtain es2 where
      e2: "effects (snd (upload_loop env cfg u hs s (Suc i) rest st' resp')) = effects st' @ es2"
      and r2: "\<And>cr. record_before_blob cr es2"
      by blast
    have "effects (snd (upload_loop env cfg u hs s i (f # rest) st resp))
            = effects st @ (es1 @ es2)"
      using Inr v sf e1 e2 by simp
    moreover have "\<forall>cr. record_before_blob cr (es1 @ es2)"
      using r1 r2 by (simp add: record_before_blob_append)
    ultimately show ?thesis by blast
  qed
qed

lemma effects_single_shot:
  "\<exists>es. effects (snd (single_shot env cfg u hs fs s st resp)) = effects st @ es
     \<and> (\<forall>cr. record_before_blob cr es)"
proof (cases fs)
  case None
  then show ?thesis by (simp add: single_shot_def)
next
  case (Some l)
  obtain r st' where ul: "upload_loop env cfg u hs s 0 l st resp = (r, st')"
    by (cases "upload_loop env cfg u hs s 0 l st resp") auto
  from effects_upload_loop [of env cfg u hs s 0 l st resp] ul obtain es where
    "effects st' = effects st @ es" "\<forall>cr. record_before_blob cr es"
    by auto
  with Some ul show ?thesis
    by (auto simp: single_shot_def split: sum.split)
qed

lemma effects_chunked:
  "\<exists>es. effects (snd (chunked env cfg u hs fs s st)) = effects st @ es
     \<and> (\<forall>cr. record_before_blob cr es)"
proof -
  have a: "\<And>t. \<forall>cr. record_before_blob cr [TempWritten t]" by simp
  have b: "\<And>t r w. \<forall>cr. record_before_blob cr [TempWritten t, FileCreated r, WorkerSpawned w]"
    by simp
  show ?thesis
    unfolding chunked_def Let_def
    using a b
    by (simp add: effects_add_effect effects_create_file split: option.split list.split)
qed

lemma effects_after_expiry:
  "\<exists>es. effects (snd (after_expiry env cfg u hs fs resp e st)) = effects st @ es
     \<and> (\<forall>cr. record_before_blob cr es)"
  using effects_chunked [of env cfg u hs fs "settings_of env cfg hs e" st]
    effects_single_shot [of env cfg u hs fs "settings_of env cfg hs e" st]
  by (simp add: after_expiry_def Let_def split: option.split sum.split)

lemma effects_after_ratelimit:
  "\<exists>es. effects (snd (after_ratelimit env cfg u req st)) = effects st @ es
     \<and> (\<forall>cr. record_before_blob cr es)"
  using effects_after_expiry [of env cfg u "req_headers req"]
  by (simp add: after_ratelimit_def split: sum.split)

lemma effects_ratelimit_check:
  "\<exists>es. effects (snd (ratelimit_check env cfg u hs st)) = effects st @ es
     \<and> (\<forall>e\<in>set es. \<not> touches_files e)"
  by (simp add: ratelimit_check_def Let_def update_ratelimit_def)

lemma files_ratelimit_check:
  "files (snd (ratelimit_check env cfg u hs st)) = files st"
  by (simp add: ratelimit_check_def Let_def update_ratelimit_def)

lemma effects_handler:
  "\<exists>es. effects (snd (handler env cfg req st)) = effects st @ es
     \<and> (\<forall>cr. record_before_blob cr es)"
proof (cases "truthy_hdr (req_headers req) ''authorization''")
  case False
  then show ?thesis by (simp add: handler_def)
next
  case True
  show ?thesis
  proof (cases "findFirstUser (hdr_text (req_headers req) ''authorization'') (users st)")
    case None
    with True show ?thesis by (simp add: handler_def)
  next
    case (Some u)
    obtain r st1 where rl: "ratelimit_check env cfg u (req_headers req) st = (r, st1)"
      by (cases "ratelimit_check env cfg u (req_headers req) st") auto
    from effects_ratelimit_check [of env cfg u "req_headers req" st] rl obtain es0 where
      e0: "effects st1 = effects st @ es0" and u0: "\<forall>e\<in>set es0. \<not> touches_files e"
      by auto
    show ?thesis
    proof (cases r)
      case (Some resp)
      have "\<forall>cr. record_before_blob cr es0"
        using record_before_blob_user_update [OF u0, of _ "[]"] by simp
      with True \<open>findFirstUser _ _ = Some u\<close> rl Some e0 show ?thesis
        by (auto simp: handler_def)
    next
      case None
      from effects_after_ratelimit [of env cfg u req st1] obtain es where
        e1: "effects (snd (after_ratelimit env cfg u req st1)) = effects st1 @ es"
        and r1: "\<forall>cr. record_before_blob cr es"
        by blast
      have h: "handler env cfg req st = after_ratelimit env cfg u req st1"
        using True \<open>findFirstUser _ _ = Some u\<close> rl None by (simp add: handler_def)
      have "effects (snd (handler env cfg req st)) = effects st @ (es0 @ es)"
        using h e1 e0 by simp
      moreover have "\<forall>cr. record_before_blob cr (es0 @ es)"
        using record_before_blob_user_update [OF u0] r1 by simp
      ultimately show ?thesis by blast
    qed
  qed
qed

lemma files_single_shot:
  "\<exists>news. files (snd (single_shot env cfg u hs (Some fs) s st resp)) = files st @ news
     \<and> length news \<le> length fs
     \<and> list_all2 (row_of_file env cfg u hs s) news (take (length news) fs)
     \<and> created_after_validation env cfg u hs (s_format s) (files st) news fs"
proof (cases "fs = []")
  case True
  then show ?thesis by (simp add: single_shot_def)
next
  case False
  obtain r st' where ul: "upload_loop env cfg u hs s 0 fs st resp = (r, st')"
    by (cases "upload_loop env cfg u hs s 0 fs st resp") auto
  have "snd (single_shot env cfg u hs (Some fs) s st resp) = st'"
    using False ul by (simp add: single_shot_def split: sum.split)
  with upload_loop_files [of env cfg u hs s 0 fs st resp] ul show ?thesis by simp
qed

lemma s_format_settings_of: "s_format (settings_of env cfg hs e) = request_format cfg hs"
  by (simp add: settings_of_def)

lemma files_after_expiry:
  assumes "\<not> (truthy_hdr hs ''content-range'' \<and> chunks_enabled cfg)"
  shows "\<exists>news. files (snd (after_expiry env cfg u hs (Some fs) resp e st)) = files st @ news
     \<and> length news \<le> length fs
     \<and> list_all2 (row_of_file env cfg u hs (settings_of env cfg hs e)) news
         (take (length news) fs)
     \<and> created_after_validation env cfg u hs (request_format cfg hs) (files st) news fs"
proof -
  have trivial: "\<exists>news. files st = files st @ news
     \<and> length news \<le> length fs
     \<and> list_all2 (row_of_file env cfg u hs (settings_of env cfg hs e)) news
         (take (length news) fs)
     \<and> created_after_validation env cfg u hs (request_format cfg hs) (files st) news fs"
    by (intro exI [of _ "[]"]) simp
  note ss = files_single_shot [of env cfg u hs fs "settings_of env cfg hs e" st,
      unfolded s_format_settings_of]
  have c: "(truthy_hdr hs ''content-range'' \<and> chunks_enabled cfg) = False"
    using assms by simp
  show ?thesis
    using trivial ss
    by (simp add: after_expiry_def Let_def c split: option.split sum.split)
qed

lemma files_after_ratelimit:
  assumes route: "\<not> (truthy_hdr (req_headers req) ''content-range'' \<and> chunks_enabled cfg)"
    and body: "multer req = Inr (Some fs)"
  shows "\<exists>news. files (snd (after_ratelimit env cfg u req st)) = files st @ news
     \<and> length news \<le> length fs
     \<and> created_after_validation env cfg u (req_headers req)
          (request_format cfg (req_headers req)) (files st) news fs
     \<and> (news = [] \<or>
         (\<exists>requested expiry. client_expiry env (req_headers req) = Inr requested
            \<and> default_expiry env cfg requested = Inr expiry
            \<and> list_all2 (row_of_file env cfg u (req_headers req)
                           (settings_of env cfg (req_headers req) expiry))
                 news (take (length news) fs)))"
proof (cases "client_expiry env (req_headers req)")
  case (Inl m)
  with body show ?thesis by (simp add: after_ratelimit_def)
next
  case (Inr requested)
  show ?thesis
  proof (cases "default_expiry env cfg requested")
    case (Inl m)
    with body \<open>client_expiry _ _ = Inr requested\<close> show ?thesis
      by (simp add: after_ratelimit_def)
  next
    case expiry: (Inr expiry)
    have h: "after_ratelimit env cfg u req st
               = after_expiry env cfg u (req_headers req) (Some fs)
                   (empty_response\<lparr>r_expiresAt := requested\<rparr>) expiry st"
      using body Inr expiry by (simp add: after_ratelimit_def)
    from files_after_expiry [OF route, of env u fs "empty_response\<lparr>r_expiresAt := requested\<rparr>"
        expiry st]
    obtain news where
      "files (snd (after_ratelimit env cfg u req st)) = files st @ news"
      "length news \<le> length fs"
      "list_all2 (row_of_file env cfg u (req_headers req)
                    (settings_of env cfg (req_headers req) expiry)) news (take (length news) fs)"
      "created_after_validation env cfg u (req_headers req)
          (request_format cfg (req_headers req)) (files st) news fs"
      unfolding h by blast
    with Inr expiry show ?thesis by blast
  qed
qed

lemma files_handler:
  assumes user: "findFirstUser (hdr_text (req_headers req) ''authorization'') (users st) = Some u"
    and route: "\<not> (truthy_hdr (req_headers req) ''content-range'' \<and> chunks_enabled cfg)"
    and body: "multer req = Inr (Some fs)"
  shows "\<exists>news. files (snd (handler env cfg req st)) = files st @ news
     \<and> length news \<le> length fs
     \<and> created_after_validation env cfg u (req_headers req)
          (request_format cfg (req_headers req)) (files st) news fs
     \<and> (news = [] \<or>
         (\<exists>requested expiry. client_expiry env (req_headers req) = Inr requested
            \<and> default_expiry env cfg requested = Inr expiry
            \<and> list_all2 (row_of_file env cfg u (req_headers req)
                           (settings_of env cfg (req_headers req) expiry))
                 news (take (length news) fs)))"
proof -
  have trivial: "\<exists>news. files st = files st @ news
     \<and> length news \<le> length fs
     \<and> created_after_validation env cfg u (req_headers req)
          (request_format cfg (req_headers req)) (files st) news fs
     \<and> (news = [] \<or>
         (\<exists>requested expiry. client_expiry env (req_headers req) = Inr requested
            \<and> default_expiry env cfg requested = Inr expiry
            \<and> list_all2 (row_of_file env cfg u (req_headers req)
                           (settings_of env cfg (req_headers req) expiry))
                 news (take (length news) fs)))"
    by (intro exI [of _ "[]"]) simp
  show ?thesis
  proof (cases "truthy_hdr (req_headers req) ''authorization''")
    case False
    with trivial show ?thesis by (simp add: handler_def)
  next
    case True
    obtain r st1 where rl: "ratelimit_check env cfg u (req_headers req) st = (r, st1)"
      by (cases "ratelimit_check env cfg u (req_headers req) st") auto
    have f1: "files st1 = files st"
      using files_ratelimit_check [of env cfg u "req_headers req" st] rl by simp
    show ?thesis
    proof (cases r)
      case (Some resp)
      with True user rl f1 trivial show ?thesis by (simp add: handler_def)
    next
      case None
      have h: "handler env cfg req st = after_ratelimit env cfg u req st1"
        using True user rl None by (simp add: handler_def)
      show ?thesis
        using files_after_ratelimit [OF route body, of env u st1]
        unfolding h f1 .
    qed
  qed
qed

subsection \<open>The response object through the loop\<close>

lemma response_store_file:
  "fst (store_file env cfg u hs s i f d e n st resp)
     = (let r = new_record env u hs s f d e n
                  (fst (effective_mimetype env cfg f d resp)) (next_file_id st);
            resp2 = (snd (effective_mimetype env cfg f d resp))
                      \<lparr>r_files := r_files resp @ [response_url env cfg u hs i r]\<rparr>
        in if gps_attempted cfg r
           then resp2\<lparr>r_removed_gps := Some (removeGPSData env r)\<rparr>
           else resp2)"
  unfolding store_file_def Let_def response_url_def
  by (simp add: strip_gps_def effective_mimetype_files)

lemma expiresAt_store_file:
  "r_expiresAt (fst (store_file env cfg u hs s i f d e n st resp)) = r_expiresAt resp"
  by (simp add: response_store_file Let_def effective_mimetype_expiresAt)

lemma expiresAt_upload_loop:
  "fst (upload_loop env cfg u hs s i fs st resp) = Inr resp'
   \<Longrightarrow> r_expiresAt resp' = r_expiresAt resp"
proof (induction fs arbitrary: i st resp)
  case Nil
  then show ?case by simp
next
  case (Cons f rest)
  show ?case
  proof (cases "validate_file env cfg u hs s i f st")
    case (Inl r)
    with Cons.prems show ?thesis by simp
  next
    case (Inr v)
    obtain d e n where v: "v = (d, e, n)" by (cases v) auto
    obtain resp1 st1 where sf: "store_file env cfg u hs s i f d e n st resp = (resp1, st1)"
      by (cases "store_file env cfg u hs s i f d e n st resp") auto
    have "r_expiresAt resp1 = r_expiresAt resp"
      using expiresAt_store_file [of env cfg u hs s i f d e n st resp] sf by simp
    moreover have "fst (upload_loop env cfg u hs s (Suc i) rest st1 resp1) = Inr resp'"
      using Cons.prems Inr v sf by simp
    ultimately show ?thesis using Cons.IH by simp
  qed
qed

lemma json_single_shot:
  "fst (single_shot env cfg u hs fs s st resp) = Json resp'
   \<Longrightarrow> r_expiresAt resp' = r_expiresAt resp"
proof (cases fs)
  case None
  assume "fst (single_shot env cfg u hs fs s st resp) = Json resp'"
  with None show ?thesis by (simp add: single_shot_def)
next
  case (Some l)
  assume j: "fst (single_shot env cfg u hs fs s st resp) = Json resp'"
  obtain r st' where ul: "upload_loop env cfg u hs s 0 l st resp = (r, st')"
    by (cases "upload_loop env cfg u hs s 0 l st resp") auto
  show ?thesis
  proof (cases r)
    case (Inl e)
    have "status_code e = 400 \<or> status_code e = 500"
      using upload_loop_status [of env cfg u hs s 0 l st resp e] ul Inl by simp
    moreover have "e = Json resp'"
      using j Some ul Inl by (simp add: single_shot_def split: if_splits)
    ultimately show ?thesis by simp
  next
    case (Inr resp1)
    have "resp1 = resp'"
      using j Some ul Inr by (simp add: single_shot_def split: if_splits)
    with expiresAt_upload_loop [of env cfg u hs s 0 l st resp resp1] ul Inr
    show ?thesis by simp
  qed
qed

lemma json_chunked: "fst (chunked env cfg u hs fs s st) \<noteq> Json resp'"
  by (simp add: chunked_def Let_def split: option.split list.split)

lemma expiresAt_with_folder: "r_expiresAt (with_folder fid resp) = r_expiresAt resp"
  by (simp add: with_folder_def split: option.split)

lemma json_after_expiry:
  "fst (after_expiry env cfg u hs fs resp e st) = Json resp'
   \<Longrightarrow> r_expiresAt resp' = r_expiresAt resp"
  using json_chunked [of env cfg u hs fs "settings_of env cfg hs e" st resp']
    json_single_shot [of env cfg u hs fs "settings_of env cfg hs e" st _ resp']
  by (auto simp: after_expiry_def Let_def expiresAt_with_folder
      split: option.splits sum.splits if_splits)

lemma json_after_ratelimit:
  "fst (after_ratelimit env cfg u req st) = Json resp'
   \<Longrightarrow> client_expiry env (req_headers req) = Inr (r_expiresAt resp')"
  using json_after_expiry [of env cfg u "req_headers req" _ _ _ st resp']
  by (auto simp: after_ratelimit_def empty_response_def split: sum.splits)

lemma json_handler:
  "fst (handler env cfg req st) = Json resp'
   \<Longrightarrow> client_expiry env (req_headers req) = Inr (r_expiresAt resp')"
  using json_after_ratelimit [of env cfg _ req _ resp']
  by (auto simp: handler_def ratelimit_check_def Let_def split: if_splits option.splits)

subsection \<open>The rows of a single-shot upload\<close>

lemma compression_used_settings_of:
  "compression_used (settings_of env cfg hs e) f = compression_applies env hs f"
  by (simp add: compression_used_def compression_applies_def settings_of_def)

lemma stored_row_mimetype:
  assumes "decodeURI env (originalname f) = Some d"
  shows "f_mimetype (stored_row env cfg u hs (settings_of env cfg hs e) j f d k)
           = stored_mimetype env cfg hs f"
  using assms
  by (simp add: stored_row_def new_record_def stored_mimetype_def guessed_mimetype_def
      compression_used_settings_of effective_mimetype_def split: option.split)

lemma stored_row_name:
  assumes "compression_applies env hs f"
  shows "suffix ''.jpg'' (f_name (stored_row env cfg u hs (settings_of env cfg hs e) j f d k))"
  using assms
  by (simp add: stored_row_def new_record_def compression_used_settings_of suffix_def)

lemma stored_row_expiresAt:
  "f_expiresAt (stored_row env cfg u hs (settings_of env cfg hs e) j f d k) = e"
  by (simp add: stored_row_def new_record_def settings_of_def)

lemma default_expiry_configured:
  assumes "default_expiration cfg = Some v" "v \<noteq> []"
    and "default_expiry env cfg requested = Inr expiry"
  shows "case expiry of None \<Rightarrow> False | Some d \<Rightarrow> parseExpiry env v = Inr d"
  using assms by (auto simp: default_expiry_def split: sum.splits)

text \<open>
  C2. On the single-shot path a row of the file table is created for a file only after
  that file passed every check (size, filename, extension, name not in use) against the
  table as it stood at that moment, and among the effects of a request every save of a
  blob under a name comes after the creation of the row of that name: the datasource is
  never written before the row exists.
\<close>

theorem record_created_before_blob_saved:
  assumes user: "findFirstUser (hdr_text (req_headers req) ''authorization'') (users st) = Some u"
    and route: "\<not> (truthy_hdr (req_headers req) ''content-range'' \<and> chunks_enabled cfg)"
    and body: "multer req = Inr (Some fs)"
  shows "record_before_blob []
           (drop (length (effects st)) (effects (snd (handler env cfg req st))))
       \<and> created_after_validation env cfg u (req_headers req)
           (request_format cfg (req_headers req)) (files st)
           (drop (length (files st)) (files (snd (handler env cfg req st)))) fs"
proof -
  from effects_handler [of env cfg req st] obtain es where
    "effects (snd (handler env cfg req st)) = effects st @ es" "\<forall>cr. record_before_blob cr es"
    by blast
  then have a: "record_before_blob []
           (drop (length (effects st)) (effects (snd (handler env cfg req st))))"
    by simp
  from files_handler [OF user route body, of env] obtain news where
    "files (snd (handler env cfg req st)) = files st @ news"
    "created_after_validation env cfg u (req_headers req)
          (request_format cfg (req_headers req)) (files st) news fs"
    by blast
  then have b: "created_after_validation env cfg u (req_headers req)
           (request_format cfg (req_headers req)) (files st)
           (drop (length (files st)) (files (snd (handler env cfg req st)))) fs"
    by simp
  from a b show ?thesis by simp
qed

theorem record_created_before_blob_saved_witness:
  "findFirstUser ''usr'' (users example_state) = Some example_member
   \<and> \<not> truthy_hdr (map_of [(''authorization'', ''usr''), (''host'', ''h'')]) ''content-range''
   \<and> record_before_blob []
        (effects (snd (handler example_env example_cfg
           (example_request [(''authorization'', ''usr''), (''host'', ''h'')]
              [example_image, example_big])
           example_state)))
   \<and> created_after_validation example_env example_cfg example_member
        (map_of [(''authorization'', ''usr''), (''host'', ''h'')]) ''random'' []
        (files (snd (handler example_env example_cfg
           (example_request [(''authorization'', ''usr''), (''host'', ''h'')]
              [example_image, example_big])
           example_state)))
        [example_image, example_big]
   \<and> fst (handler example_env example_cfg
           (example_request [(''authorization'', ''usr''), (''host'', ''h'')]
              [example_image, example_big])
           example_state) = BadRequest ''file[1]: size too big''
   \<and> effects (snd (handler example_env example_cfg
           (example_request [(''authorization'', ''usr''), (''host'', ''h'')]
              [example_image, example_big])
           example_state))
       = [FileCreated
            \<lparr>f_id = 1, f_name = ''f0.png'', f_mimetype = ''image/png'', f_userId = 2,
             f_embed = False, f_password = None, f_expiresAt = None, f_maxViews = None,
             f_originalName = None, f_size = Some 3, f_folderId = None\<rparr>,
          BlobSaved ''f0.png'' [1, 2, 3] ''image/png'']"
proof -
  let ?hs = "[(''authorization'', ''usr''), (''host'', ''h'')]"
  let ?req = "example_request ?hs [example_image, example_big]"
  have hs: "req_headers ?req = map_of ?hs" by (simp add: example_request_def)
  have t: "hdr_text (req_headers ?req) ''authorization'' = ''usr''"
    by (simp add: example_request_def hdr_text_def)
  have fmt: "request_format example_cfg (map_of ?hs) = ''random''" by code_simp
  have u: "findFirstUser (hdr_text (req_headers ?req) ''authorization'') (users example_state)
             = Some example_member"
    unfolding t by code_simp
  have c: "\<not> truthy_hdr (req_headers ?req) ''content-range''" by code_simp
  then have route: "\<not> (truthy_hdr (req_headers ?req) ''content-range''
                       \<and> chunks_enabled example_cfg)" by simp
  have b: "multer ?req = Inr (Some [example_image, example_big])"
    by (simp add: example_request_def)
  have e0: "effects example_state = []" "files example_state = []"
    by (simp_all add: example_state_def)
  have r: "record_before_blob []
             (effects (snd (handler example_env example_cfg ?req example_state)))
           \<and> created_after_validation example_env example_cfg example_member
               (map_of ?hs) ''random'' []
               (files (snd (handler example_env example_cfg ?req example_state)))
               [example_image, example_big]"
    using record_created_before_blob_saved [OF u route b, of example_env]
    by (simp only: hs fmt e0 list.size drop_0)
  have run: "fst (handler example_env example_cfg ?req example_state)
               = BadRequest ''file[1]: size too big''
   \<and> effects (snd (handler example_env example_cfg ?req example_state))
       = [FileCreated
            \<lparr>f_id = 1, f_name = ''f0.png'', f_mimetype = ''image/png'', f_userId = 2,
             f_embed = False, f_password = None, f_expiresAt = None, f_maxViews = None,
             f_originalName = None, f_size = Some 3, f_folderId = None\<rparr>,
          BlobSaved ''f0.png'' [1, 2, 3] ''image/png'']"
    by code_simp
  have t': "hdr_text (map_of ?hs) ''authorization'' = ''usr''"
    by (simp add: hdr_text_def)
  show ?thesis using r u c run unfolding hs t' by blast
qed

text \<open>
  C6. Every row that a single-shot request creates carries the mimetype the priority
  gives for its file: \<open>text/plain\<close> under the treat-as-text override; otherwise
  \<open>image/jpeg\<close> when the compression applies, and then the stored name ends in
  \<open>.jpg\<close>; otherwise the declared mimetype, or, for a declared
  \<open>application/octet-stream\<close> with the assume-mimetypes feature on, the mimetype
  guessed from the extension when one is found.
\<close>

theorem stored_mimetype_priority:
  assumes user: "findFirstUser (hdr_text (req_headers req) ''authorization'') (users st) = Some u"
    and route: "\<not> (truthy_hdr (req_headers req) ''content-range'' \<and> chunks_enabled cfg)"
    and body: "multer req = Inr (Some fs)"
  shows "list_all2
           (\<lambda>r f. f_mimetype r = stored_mimetype env cfg (req_headers req) f
                 \<and> (compression_applies env (req_headers req) f \<longrightarrow> suffix ''.jpg'' (f_name r)))
           (drop (length (files st)) (files (snd (handler env cfg req st))))
           (take (length (files (snd (handler env cfg req st))) - length (files st)) fs)"
proof -
  from files_handler [OF user route body, of env] obtain news where
    f: "files (snd (handler env cfg req st)) = files st @ news"
    and n: "news = [] \<or>
         (\<exists>requested expiry. client_expiry env (req_headers req) = Inr requested
            \<and> default_expiry env cfg requested = Inr expiry
            \<and> list_all2 (row_of_file env cfg u (req_headers req)
                           (settings_of env cfg (req_headers req) expiry))
                 news (take (length news) fs))"
    by blast
  have "list_all2
           (\<lambda>r f. f_mimetype r = stored_mimetype env cfg (req_headers req) f
                 \<and> (compression_applies env (req_headers req) f \<longrightarrow> suffix ''.jpg'' (f_name r)))
           news (take (length news) fs)"
  proof (cases "news = []")
    case True
    then show ?thesis by simp
  next
    case False
    with n obtain expiry where
      "list_all2 (row_of_file env cfg u (req_headers req)
                    (settings_of env cfg (req_headers req) expiry))
         news (take (length news) fs)"
      by blast
    then show ?thesis
    proof (rule list_all2_mono)
      fix r f
      assume "row_of_file env cfg u (req_headers req)
                (settings_of env cfg (req_headers req) expiry) r f"
      then show "f_mimetype r = stored_mimetype env cfg (req_headers req) f
                 \<and> (compression_applies env (req_headers req) f \<longrightarrow> suffix ''.jpg'' (f_name r))"
        using stored_row_mimetype stored_row_name by blast
    qed
  qed
  with f show ?thesis by simp
qed

theorem stored_mimetype_priority_witness:
  "findFirstUser ''adm'' (users example_state) = Some example_admin
   \<and> \<not> truthy_hdr (map_of [(''authorization'', ''adm''), (''host'', ''h''),
                             (''image-compression-percent'', ''50'')]) ''content-range''
   \<and> list_all2
        (\<lambda>r f. f_mimetype r
                  = stored_mimetype example_env example_cfg
                      (map_of [(''authorization'', ''adm''), (''host'', ''h''),
                               (''image-compression-percent'', ''50'')]) f
              \<and> (compression_applies example_env
                    (map_of [(''authorization'', ''adm''), (''host'', ''h''),
                             (''image-compression-percent'', ''50'')]) f
                  \<longrightarrow> suffix ''.jpg'' (f_name r)))
        (drop (length (files example_state))
           (files (snd (handler example_env example_cfg
              (example_request [(''authorization'', ''adm''), (''host'', ''h''),
                                (''image-compression-percent'', ''50'')]
                 [example_image, example_blob, example_text])
              example_state))))
        (take (length (files (snd (handler example_env example_cfg
                 (example_request [(''authorization'', ''adm''), (''host'', ''h''),
                                   (''image-compression-percent'', ''50'')]
                    [example_image, example_blob, example_text])
                 example_state))) - length (files example_state))
           [example_image, example_blob, example_text])
   \<and> map f_mimetype (files (snd (handler example_env example_cfg
          (example_request [(''authorization'', ''adm''), (''host'', ''h''),
                            (''image-compression-percent'', ''50'')]
             [example_image, example_blob, example_text])
          example_state)))
       = [''image/jpeg'', ''image/png'', ''text/plain'']
   \<and> map f_name (files (snd (handler example_env example_cfg
          (example_request [(''authorization'', ''adm''), (''host'', ''h''),
                            (''image-compression-percent'', ''50'')]
             [example_image, example_blob, example_text])
          example_state)))
       = [''f0.jpg'', ''f1.png'', ''f2.txt'']"
proof -
  let ?hs = "[(''authorization'', ''adm''), (''host'', ''h''),
              (''image-compression-percent'', ''50'')]"
  let ?req = "example_request ?hs [example_image, example_blob, example_text]"
  have hs: "req_headers ?req = map_of ?hs" by (simp add: example_request_def)
  have t: "hdr_text (map_of ?hs) ''authorization'' = ''adm''"
    by (simp add: hdr_text_def)
  have u: "findFirstUser (hdr_text (req_headers ?req) ''authorization'') (users example_state)
             = Some example_admin"
    unfolding hs t by code_simp
  have c: "\<not> truthy_hdr (req_headers ?req) ''content-range''" by code_simp
  then have route: "\<not> (truthy_hdr (req_headers ?req) ''content-range''
                       \<and> chunks_enabled example_cfg)" by simp
  have b: "multer ?req = Inr (Some [example_image, example_blob, example_text])"
    by (simp add: example_request_def)
  note r = stored_mimetype_priority [OF u route b, of example_env]
  have run: "map f_mimetype (files (snd (handler example_env example_cfg ?req example_state)))
       = [''image/jpeg'', ''image/png'', ''text/plain'']
   \<and> map f_name (files (snd (handler example_env example_cfg ?req example_state)))
       = [''f0.jpg'', ''f1.png'', ''f2.txt'']"
    by code_simp
  show ?thesis using r u c run unfolding hs t by blast
qed

text \<open>
  C9. With a default expiration configured, every row that a single-shot request creates
  expires at the date parsed from the configured default, whatever the expires-at header
  asks for, while the \<open>expiresAt\<close> field of a JSON response is what parsing the
  client's header gives.
\<close>

theorem default_expiration_overrides_client:
  assumes dflt: "default_expiration cfg = Some v"
    and nonempty: "v \<noteq> []"
    and user: "findFirstUser (hdr_text (req_headers req) ''authorization'') (users st) = Some u"
    and route: "\<not> (truthy_hdr (req_headers req) ''content-range'' \<and> chunks_enabled cfg)"
    and body: "multer req = Inr (Some fs)"
  shows "list_all (\<lambda>r. case f_expiresAt r of
                         None \<Rightarrow> False
                       | Some d \<Rightarrow> parseExpiry env v = Inr d)
           (drop (length (files st)) (files (snd (handler env cfg req st))))
       \<and> (\<forall>resp. fst (handler env cfg req st) = Json resp
             \<longrightarrow> client_expiry env (req_headers req) = Inr (r_expiresAt resp))"
proof -
  from files_handler [OF user route body, of env] obtain news where
    f: "files (snd (handler env cfg req st)) = files st @ news"
    and n: "news = [] \<or>
         (\<exists>requested expiry. client_expiry env (req_headers req) = Inr requested
            \<and> default_expiry env cfg requested = Inr expiry
            \<and> list_all2 (row_of_file env cfg u (req_headers req)
                           (settings_of env cfg (req_headers req) expiry))
                 news (take (length news) fs))"
    by blast
  have "list_all (\<lambda>r. case f_expiresAt r of
                         None \<Rightarrow> False
                       | Some d \<Rightarrow> parseExpiry env v = Inr d) news"
  proof (cases "news = []")
    case True
    then show ?thesis by simp
  next
    case False
    with n obtain requested expiry where
      de: "default_expiry env cfg requested = Inr expiry"
      and la: "list_all2 (row_of_file env cfg u (req_headers req)
                    (settings_of env cfg (req_headers req) expiry))
         news (take (length news) fs)"
      by blast
    note ex = default_expiry_configured [OF dflt nonempty de]
    show ?thesis
      unfolding list_all_iff
    proof
      fix r
      assume "r \<in> set news"
      then obtain j where j: "j < length news" "news ! j = r"
        by (auto simp: in_set_conv_nth)
      from la j have "row_of_file env cfg u (req_headers req)
                    (settings_of env cfg (req_headers req) expiry) r (take (length news) fs ! j)"
        by (auto simp: list_all2_conv_all_nth)
      then have "f_expiresAt r = expiry"
        using stored_row_expiresAt by blast
      with ex show "case f_expiresAt r of None \<Rightarrow> False | Some d \<Rightarrow> parseExpiry env v = Inr d"
        by simp
    qed
  qed
  with f json_handler [of env cfg req st] show ?thesis by simp
qed

theorem default_expiration_overrides_client_witness:
  "default_expiration (example_cfg\<lparr>default_expiration := Some ''777''\<rparr>) = Some ''777''
   \<and> findFirstUser ''usr'' (users example_state) = Some example_member
   \<and> \<not> truthy_hdr (map_of [(''authorization'', ''usr''), (''host'', ''h''),
                             (''expires-at'', ''555'')]) ''content-range''
   \<and> list_all (\<lambda>r. case f_expiresAt r of
                       None \<Rightarrow> False
                     | Some d \<Rightarrow> parseExpiry example_env ''777'' = Inr d)
        (drop (length (files example_state))
           (files (snd (handler example_env (example_cfg\<lparr>default_expiration := Some ''777''\<rparr>)
              (example_request [(''authorization'', ''usr''), (''host'', ''h''),
                                (''expires-at'', ''555'')] [example_text])
              example_state))))
   \<and> client_expiry example_env
        (map_of [(''authorization'', ''usr''), (''host'', ''h''), (''expires-at'', ''555'')])
       = Inr (r_expiresAt
               \<lparr>r_files = [''http://h/u/f0.txt''], r_expiresAt = Some 555,
                r_removed_gps = None, r_assumed_mimetype = None, r_folder = None\<rparr>)
   \<and> fst (handler example_env (example_cfg\<lparr>default_expiration := Some ''777''\<rparr>)
          (example_request [(''authorization'', ''usr''), (''host'', ''h''),
                            (''expires-at'', ''555'')] [example_text])
          example_state)
       = Json \<lparr>r_files = [''http://h/u/f0.txt''], r_expiresAt = Some 555,
               r_removed_gps = None, r_assumed_mimetype = None, r_folder = None\<rparr>
   \<and> map f_expiresAt
        (files (snd (handler example_env (example_cfg\<lparr>default_expiration := Some ''777''\<rparr>)
           (example_request [(''authorization'', ''usr''), (''host'', ''h''),
                             (''expires-at'', ''555'')] [example_text])
           example_state)))
       = [Some 777]"
proof -
  let ?hs = "[(''authorization'', ''usr''), (''host'', ''h''), (''expires-at'', ''555'')]"
  let ?req = "example_request ?hs [example_text]"
  let ?cfg = "example_cfg\<lparr>default_expiration := Some ''777''\<rparr>"
  let ?resp = "\<lparr>r_files = [''http://h/u/f0.txt''], r_expiresAt = Some 555,
                r_removed_gps = None, r_assumed_mimetype = None, r_folder = None\<rparr>"
  have hs: "req_headers ?req = map_of ?hs" by (simp add: example_request_def)
  have t: "hdr_text (map_of ?hs) ''authorization'' = ''usr''"
    by (simp add: hdr_text_def)
  have d: "default_expiration ?cfg = Some ''777''" by simp
  have ne: "''777'' \<noteq> []" by simp
  have u: "findFirstUser (hdr_text (req_headers ?req) ''authorization'') (users example_state)
             = Some example_member"
    unfolding hs t by code_simp
  have c: "\<not> truthy_hdr (req_headers ?req) ''content-range''" by code_simp
  then have route: "\<not> (truthy_hdr (req_headers ?req) ''content-range''
                       \<and> chunks_enabled ?cfg)" by simp
  have b: "multer ?req = Inr (Some [example_text])"
    by (simp add: example_request_def)
  note r = default_expiration_overrides_client [OF d ne u route b, of example_env]
  have run: "fst (handler example_env ?cfg ?req example_state) = Json ?resp
   \<and> map f_expiresAt (files (snd (handler example_env ?cfg ?req example_state))) = [Some 777]"
    by code_simp
  from r run have j: "client_expiry example_env (req_headers ?req) = Inr (r_expiresAt ?resp)"
    by blast
  show ?thesis using r d u c run j unfolding hs t by blast
qed

subsection \<open>The order of the checks\<close>


















subsection \<open>The best-effort removal of GPS data\<close>

lemma effective_mimetype_removed_gps:
  "r_removed_gps (snd (effective_mimetype env cfg f d resp)) = r_removed_gps resp"
  by (simp add: effective_mimetype_def split: option.split)

lemma removed_gps_store_file:
  "r_removed_gps (fst (store_file env cfg u hs s i f d e n st resp))
     = (if gps_attempted cfg (new_record env u hs s f d e n
                                (fst (effective_mimetype env cfg f d resp)) (next_file_id st))
        then Some (removeGPSData env (new_record env u hs s f d e n
                                (fst (effective_mimetype env cfg f d resp)) (next_file_id st)))
        else r_removed_gps resp)"
  by (simp add: response_store_file Let_def effective_mimetype_removed_gps)

lemma r_files_store_file:
  "r_files (fst (store_file env cfg u hs s i f d e n st resp))
     = r_files resp
       @ [response_url env cfg u hs i
            (new_record env u hs s f d e n
               (fst (effective_mimetype env cfg f d resp)) (next_file_id st))]"
  by (simp add: response_store_file Let_def)

lemma upload_loop_flag:
  "upload_loop env cfg u hs s i fs st resp = (Inr resp', st')
   \<Longrightarrow> prefix (r_files resp) (r_files resp')
       \<and> prefix (files st) (files st')
       \<and> (r_removed_gps resp = Some False
            \<longrightarrow> list_all (\<lambda>r. \<not> (gps_attempted cfg r \<and> removeGPSData env r))
                  (drop (length (files st)) (files st'))
            \<longrightarrow> r_removed_gps resp' = Some False)"
proof (induction fs arbitrary: i st resp)
  case Nil
  then show ?case by simp
next
  case (Cons f rest)
  show ?case
  proof (cases "validate_file env cfg u hs s i f st")
    case (Inl r)
    with Cons.prems show ?thesis by simp
  next
    case (Inr v)
    obtain d e n where v: "v = (d, e, n)" by (cases v) auto
    obtain resp1 st1 where sf: "store_file env cfg u hs s i f d e n st resp = (resp1, st1)"
      by (cases "store_file env cfg u hs s i f d e n st resp") auto
    let ?r = "new_record env u hs s f d e n
                (fst (effective_mimetype env cfg f d resp)) (next_file_id st)"
    have f1: "files st1 = files st @ [?r]"
      using files_store_file [of env cfg u hs s i f d e n st resp] sf by simp
    have u1: "r_files resp1 = r_files resp @ [response_url env cfg u hs i ?r]"
      using r_files_store_file [of env cfg u hs s i f d e n st resp] sf by simp
    have g1: "r_removed_gps resp1
                = (if gps_attempted cfg ?r then Some (removeGPSData env ?r)
                   else r_removed_gps resp)"
      using removed_gps_store_file [of env cfg u hs s i f d e n st resp] sf by simp
    have loop: "upload_loop env cfg u hs s (Suc i) rest st1 resp1 = (Inr resp', st')"
      using Cons.prems Inr v sf by simp
    note ih = Cons.IH [OF loop]
    from ih have p1: "prefix (r_files resp1) (r_files resp')"
      and p2: "prefix (files st1) (files st')"
      by simp_all
    from p2 obtain news where n: "files st' = files st1 @ news"
      by (auto simp: prefix_def)
    have a: "prefix (r_files resp) (r_files resp')"
      using p1 u1 by (auto simp: prefix_def)
    have b: "prefix (files st) (files st')"
      using n f1 by (simp add: prefix_def)
    have c: "r_removed_gps resp' = Some False"
      if flag: "r_removed_gps resp = Some False"
        and later: "list_all (\<lambda>r. \<not> (gps_attempted cfg r \<and> removeGPSData env r))
                      (drop (length (files st)) (files st'))"
    proof -
      from later have here: "\<not> (gps_attempted cfg ?r \<and> removeGPSData env ?r)"
        and after: "list_all (\<lambda>r. \<not> (gps_attempted cfg r \<and> removeGPSData env r)) news"
        by (simp_all add: n f1)
      from here flag g1 have "r_removed_gps resp1 = Some False" by auto
      moreover have "list_all (\<lambda>r. \<not> (gps_attempted cfg r \<and> removeGPSData env r))
                      (drop (length (files st1)) (files st'))"
        using after by (simp add: n)
      ultimately show ?thesis using ih by blast
    qed
    from a b c show ?thesis by blast
  qed
qed

text \<open>
  C8, as the code has it. When the removal of GPS data is attempted on a single-shot file
  and fails, the failure is caught: the row stays in the file table, the URL of the file
  is appended to the response, \<open>removed_gps\<close> is set to false at that point, and the loop
  goes on with the next file. Whenever the rest of the batch is handled without a
  rejection, the request answers with status 200, the response holds the URL of the file
  at its place, the row is still in the table, and \<open>removed_gps\<close> is false unless the
  removal succeeds on a file handled later. The witness is a batch of a text, two images
  on which the removal fails, and a text.
\<close>

theorem gps_failure_does_not_abort:
  assumes pre: "upload_loop env cfg u hs s 0 pre st resp = (Inr resp1, st1)"
    and ok: "validate_file env cfg u hs s (length pre) f st1 = Inr (d, e, n)"
    and att: "gps_attempted cfg (stored_row env cfg u hs s (length pre) f d (next_file_id st1))"
    and fail: "\<not> removeGPSData env
                   (stored_row env cfg u hs s (length pre) f d (next_file_id st1))"
  shows "upload_loop env cfg u hs s 0 (pre @ f # post) st resp
           = upload_loop env cfg u hs s (Suc (length pre)) post
               (snd (store_file env cfg u hs s (length pre) f d e n st1 resp1))
               (fst (store_file env cfg u hs s (length pre) f d e n st1 resp1))
       \<and> r_removed_gps (fst (store_file env cfg u hs s (length pre) f d e n st1 resp1))
           = Some False
       \<and> r_files (fst (store_file env cfg u hs s (length pre) f d e n st1 resp1))
           = r_files resp1
             @ [response_url env cfg u hs (length pre)
                  (stored_row env cfg u hs s (length pre) f d (next_file_id st1))]
       \<and> files (snd (store_file env cfg u hs s (length pre) f d e n st1 resp1))
           = files st1 @ [stored_row env cfg u hs s (length pre) f d (next_file_id st1)]
       \<and> (\<forall>resp' st'.
             upload_loop env cfg u hs s (Suc (length pre)) post
               (snd (store_file env cfg u hs s (length pre) f d e n st1 resp1))
               (fst (store_file env cfg u hs s (length pre) f d e n st1 resp1))
               = (Inr resp', st')
             \<longrightarrow>
               single_shot env cfg u hs (Some (pre @ f # post)) s st resp
                 = (if truthy_hdr hs ''no-json'' then PlainText (join_comma (r_files resp'))
                    else Json resp', st')
               \<and> status_code (fst (single_shot env cfg u hs (Some (pre @ f # post)) s st resp))
                   = 200
               \<and> prefix (r_files resp1
                          @ [response_url env cfg u hs (length pre)
                               (stored_row env cfg u hs s (length pre) f d (next_file_id st1))])
                   (r_files resp')
               \<and> prefix (files st1
                          @ [stored_row env cfg u hs s (length pre) f d (next_file_id st1)])
                   (files st')
               \<and> (list_all (\<lambda>r. \<not> (gps_attempted cfg r \<and> removeGPSData env r))
                     (drop (Suc (length (files st1))) (files st'))
                   \<longrightarrow> r_removed_gps resp' = Some False))"
proof -
  let ?sf = "store_file env cfg u hs s (length pre) f d e n st1 resp1"
  let ?r = "stored_row env cfg u hs s (length pre) f d (next_file_id st1)"
  note p = validate_file_passed [OF ok]
  have row: "new_record env u hs s f d e n
               (fst (effective_mimetype env cfg f d resp1)) (next_file_id st1) = ?r"
    using p by (simp add: stored_row_eq)
  have step: "upload_loop env cfg u hs s (length pre) (f # post) st1 resp1
          = upload_loop env cfg u hs s (Suc (length pre)) post (snd ?sf) (fst ?sf)"
    using ok by (simp add: split_beta)
  have a: "upload_loop env cfg u hs s 0 (pre @ f # post) st resp
           = upload_loop env cfg u hs s (Suc (length pre)) post (snd ?sf) (fst ?sf)"
    using pre step by (simp add: upload_loop_append)
  have b: "r_removed_gps (fst ?sf) = Some False"
    using att fail by (simp add: removed_gps_store_file row)
  have c: "r_files (fst ?sf) = r_files resp1 @ [response_url env cfg u hs (length pre) ?r]"
    by (simp add: r_files_store_file row)
  have d: "files (snd ?sf) = files st1 @ [?r]"
    by (simp add: files_store_file row)
  have e: "single_shot env cfg u hs (Some (pre @ f # post)) s st resp
                 = (if truthy_hdr hs ''no-json'' then PlainText (join_comma (r_files resp'))
                    else Json resp', st')
               \<and> status_code (fst (single_shot env cfg u hs (Some (pre @ f # post)) s st resp))
                   = 200
               \<and> prefix (r_files resp1 @ [response_url env cfg u hs (length pre) ?r])
                   (r_files resp')
               \<and> prefix (files st1 @ [?r]) (files st')
               \<and> (list_all (\<lambda>r. \<not> (gps_attempted cfg r \<and> removeGPSData env r))
                     (drop (Suc (length (files st1))) (files st'))
                   \<longrightarrow> r_removed_gps resp' = Some False)"
    if rest: "upload_loop env cfg u hs s (Suc (length pre)) post (snd ?sf) (fst ?sf)
                = (Inr resp', st')"
    for resp' st'
  proof -
    note fl = upload_loop_flag [OF rest]
    have whole: "upload_loop env cfg u hs s 0 (pre @ f # post) st resp = (Inr resp', st')"
      using a rest by simp
    have e1: "single_shot env cfg u hs (Some (pre @ f # post)) s st resp
                 = (if truthy_hdr hs ''no-json'' then PlainText (join_comma (r_files resp'))
                    else Json resp', st')"
      using whole by (simp add: single_shot_def)
    have e2: "status_code (fst (single_shot env cfg u hs (Some (pre @ f # post)) s st resp))
                = 200"
      by (simp add: e1)
    have e3: "prefix (r_files resp1 @ [response_url env cfg u hs (length pre) ?r])
                (r_files resp')"
      using fl c by simp
    have e4: "prefix (files st1 @ [?r]) (files st')"
      using fl d by simp
    have e5: "r_removed_gps resp' = Some False"
      if "list_all (\<lambda>r. \<not> (gps_attempted cfg r \<and> removeGPSData env r))
            (drop (Suc (length (files st1))) (files st'))"
      using fl b that by (simp add: d)
    from e1 e2 e3 e4 e5 show ?thesis by (intro conjI impI)
  qed
  have e': "\<forall>resp' st'.
             upload_loop env cfg u hs s (Suc (length pre)) post (snd ?sf) (fst ?sf)
               = (Inr resp', st')
             \<longrightarrow>
               single_shot env cfg u hs (Some (pre @ f # post)) s st resp
                 = (if truthy_hdr hs ''no-json'' then PlainText (join_comma (r_files resp'))
                    else Json resp', st')
               \<and> status_code (fst (single_shot env cfg u hs (Some (pre @ f # post)) s st resp))
                   = 200
               \<and> prefix (r_files resp1 @ [response_url env cfg u hs (length pre) ?r])
                   (r_files resp')
               \<and> prefix (files st1 @ [?r]) (files st')
               \<and> (list_all (\<lambda>r. \<not> (gps_attempted cfg r \<and> removeGPSData env r))
                     (drop (Suc (length (files st1))) (files st'))
                   \<longrightarrow> r_removed_gps resp' = Some False)"
    by (intro allI impI, rule e, assumption)
  show ?thesis
    by (intro conjI a b c d e')
qed

theorem gps_failure_does_not_abort_witness:
  "fst (upload_loop example_env example_cfg example_member (example_headers ''usr'')
          (example_settings (example_headers ''usr''))
          0 [example_text] example_state empty_response)
     = Inr \<lparr>r_files = [''http://h/u/f0.txt''], r_expiresAt = None,
            r_removed_gps = None, r_assumed_mimetype = None, r_folder = None\<rparr>
   \<and> map (\<lambda>r. (f_name r, gps_attempted example_cfg r, removeGPSData example_env r))
       (files (snd (single_shot example_env example_cfg example_member
          (example_headers ''usr'')
          (Some ([example_text] @ example_image # [example_image, example_text]))
          (example_settings (example_headers ''usr'')) example_state empty_response)))
     = [(''f0.txt'', False, False), (''f1.png'', True, False), (''f2.png'', True, False),
        (''f3.txt'', False, False)]
   \<and> status_code (fst (single_shot example_env example_cfg example_member
        (example_headers ''usr'')
        (Some ([example_text] @ example_image # [example_image, example_text]))
        (example_settings (example_headers ''usr'')) example_state empty_response)) = 200
   \<and> fst (single_shot example_env example_cfg example_member
        (example_headers ''usr'')
        (Some ([example_text] @ example_image # [example_image, example_text]))
        (example_settings (example_headers ''usr'')) example_state empty_response)
     = Json \<lparr>r_files = [''http://h/u/f0.txt'', ''http://h/u/f1.png'', ''http://h/u/f2.png'',
                        ''http://h/u/f3.txt''],
             r_expiresAt = None, r_removed_gps = Some False, r_assumed_mimetype = None,
             r_folder = None\<rparr>"
proof -
  let ?hs = "example_headers ''usr''"
  let ?s = "example_settings ?hs"
  let ?resp1 = "\<lparr>r_files = [''http://h/u/f0.txt''], r_expiresAt = None,
            r_removed_gps = None, r_assumed_mimetype = None, r_folder = None\<rparr>"
  let ?R = "\<lparr>r_files = [''http://h/u/f0.txt'', ''http://h/u/f1.png'', ''http://h/u/f2.png'',
                        ''http://h/u/f3.txt''],
             r_expiresAt = None, r_removed_gps = Some False, r_assumed_mimetype = None,
             r_folder = None\<rparr>"
  let ?loop = "upload_loop example_env example_cfg example_member ?hs ?s 0 [example_text]
                 example_state empty_response"
  let ?sf = "store_file example_env example_cfg example_member ?hs ?s (length [example_text])
               example_image ''a.png'' ''png'' ''f1'' (snd ?loop) ?resp1"
  let ?rest = "upload_loop example_env example_cfg example_member ?hs ?s
                 (Suc (length [example_text])) [example_image, example_text]
                 (snd ?sf) (fst ?sf)"
  let ?single = "single_shot example_env example_cfg example_member ?hs
          (Some ([example_text] @ example_image # [example_image, example_text]))
          ?s example_state empty_response"
  have p1: "fst ?loop = Inr ?resp1" by code_simp
  then have pre: "?loop = (Inr ?resp1, snd ?loop)" by (simp add: prod_eq_iff)
  have ok: "validate_file example_env example_cfg example_member ?hs ?s (length [example_text])
              example_image (snd ?loop) = Inr (''a.png'', ''png'', ''f1'')"
    by code_simp
  have att: "gps_attempted example_cfg
               (stored_row example_env example_cfg example_member ?hs ?s (length [example_text])
                  example_image ''a.png'' (next_file_id (snd ?loop)))"
    by code_simp
  have fail: "\<not> removeGPSData example_env
               (stored_row example_env example_cfg example_member ?hs ?s (length [example_text])
                  example_image ''a.png'' (next_file_id (snd ?loop)))"
    by code_simp
  have q1: "fst ?rest = Inr ?R" by code_simp
  then have rest: "?rest = (Inr ?R, snd ?rest)" by (simp add: prod_eq_iff)
  have nj: "truthy_hdr ?hs ''no-json'' = False" by code_simp
  note t = gps_failure_does_not_abort [OF pre ok att fail, of "[example_image, example_text]"]
  note r = t [THEN conjunct2, THEN conjunct2, THEN conjunct2, THEN conjunct2,
              THEN spec, THEN spec, THEN mp, OF rest]
  have single: "?single = (Json ?R, snd ?rest)"
    using r [THEN conjunct1] by (simp only: nj if_False)
  have status: "status_code (fst ?single) = 200"
    by (rule r [THEN conjunct2, THEN conjunct1])
  have rows: "map (\<lambda>r. (f_name r, gps_attempted example_cfg r, removeGPSData example_env r))
       (files (snd ?rest))
     = [(''f0.txt'', False, False), (''f1.png'', True, False), (''f2.png'', True, False),
        (''f3.txt'', False, False)]"
    by code_simp
  have w2: "map (\<lambda>r. (f_name r, gps_attempted example_cfg r, removeGPSData example_env r))
       (files (snd ?single))
     = [(''f0.txt'', False, False), (''f1.png'', True, False), (''f2.png'', True, False),
        (''f3.txt'', False, False)]"
    by (simp only: single snd_conv rows)
  have w4: "fst ?single = Json ?R" by (simp only: single fst_conv)
  show ?thesis by (intro conjI p1 w2 status w4)
qed



text \<open>
  C8 as stated fails in a batch of several files, since \<open>removed_gps\<close> is one flag that
  every file overwrites. Two images are uploaded; the removal is attempted on both, fails
  on the first and succeeds on the second; the response has status 200 and
  \<open>removed_gps: true\<close>.
\<close>

theorem gps_failure_flag_counterexample:
  "map (gps_attempted example_cfg)
     (files (snd (handler (example_env\<lparr>removeGPSData := (\<lambda>r. f_name r \<noteq> ''f0.png'')\<rparr>)
        example_cfg
        (example_request [(''authorization'', ''usr''), (''host'', ''h'')]
           [example_image, example_image])
        example_state))) = [True, True]
   \<and> map (removeGPSData (example_env\<lparr>removeGPSData := (\<lambda>r. f_name r \<noteq> ''f0.png'')\<rparr>))
     (files (snd (handler (example_env\<lparr>removeGPSData := (\<lambda>r. f_name r \<noteq> ''f0.png'')\<rparr>)
        example_cfg
        (example_request [(''authorization'', ''usr''), (''host'', ''h'')]
           [example_image, example_image])
        example_state))) = [False, True]
   \<and> fst (handler (example_env\<lparr>removeGPSData := (\<lambda>r. f_name r \<noteq> ''f0.png'')\<rparr>)
        example_cfg
        (example_request [(''authorization'', ''usr''), (''host'', ''h'')]
           [example_image, example_image])
        example_state)
     = Json \<lparr>r_files = [''http://h/u/f0.png'', ''http://h/u/f1.png''], r_expiresAt = None,
             r_removed_gps = Some True, r_assumed_mimetype = None, r_folder = None\<rparr>"
  by code_simp


subsection \<open>The compression percentage\<close>

lemma header_number_bad:
  assumes "hs k = Some v"
    and "isNaN (Number_of env v) \<or> lt_num (Number_of env v) 0 \<or> gt_num (Number_of env v) 100"
  shows "header_number env hs k = Some (Number_of env v)"
  using assms by (auto simp: header_number_def Number_of_def)

lemma check_compression_percent_bad:
  assumes "isNaN x \<or> lt_num x 0 \<or> gt_num x 100"
  shows "check_compression_percent (Some x)
           = Some (if isNaN x then ''invalid image compression percent (invalid number)''
                   else ''invalid image compression percent (% < 0 || % > 100)'')"
  using assms by (auto simp: check_compression_percent_def)

lemma after_expiry_bad_percent:
  assumes "hs ''image-compression-percent'' = Some v"
    and "isNaN (Number_of env v) \<or> lt_num (Number_of env v) 0 \<or> gt_num (Number_of env v) 100"
  shows "after_expiry env cfg u hs fs resp e st
           = (BadRequest (if isNaN (Number_of env v)
                          then ''invalid image compression percent (invalid number)''
                          else ''invalid image compression percent (% < 0 || % > 100)''), st)"
  using header_number_bad [of hs "''image-compression-percent''" v env, OF assms]
    check_compression_percent_bad [OF assms(2)]
  by (simp add: after_expiry_def Let_def settings_of_def)

lemma file_effects_ratelimit_check:
  "file_effects (snd (ratelimit_check env cfg u hs st)) = file_effects st"
  by (simp add: ratelimit_check_def Let_def update_ratelimit_def file_effects_def)

lemma ratelimit_check_status:
  "fst (ratelimit_check env cfg u hs st) = Some r \<Longrightarrow> status_code r = 429"
  by (auto simp: ratelimit_check_def Let_def split: if_splits)

text \<open>
  C7. If the image-compression-percent header is present and its value is not a number,
  or is a number below 0 or above 100, the request is rejected: no row is created, and
  nothing is saved, written or notified, whatever else the request holds. A request that
  gets as far as the header checks (authenticated, not rate-limited, parsed by multer,
  with valid expiry settings) is rejected there with status 400 and the reason for the
  percentage, before any attached file is looked at.
\<close>

theorem invalid_compression_percent_rejected:
  assumes hdr: "req_headers req ''image-compression-percent'' = Some v"
    and bad: "isNaN (Number_of env v) \<or> lt_num (Number_of env v) 0
              \<or> gt_num (Number_of env v) 100"
  shows "status_code (fst (handler env cfg req st)) \<noteq> 200
       \<and> files (snd (handler env cfg req st)) = files st
       \<and> file_effects (snd (handler env cfg req st)) = file_effects st
       \<and> (reaches_header_checks env cfg req st \<longrightarrow>
            fst (handler env cfg req st)
              = BadRequest (if isNaN (Number_of env v)
                            then ''invalid image compression percent (invalid number)''
                            else ''invalid image compression percent (% < 0 || % > 100)''))"
proof (cases "truthy_hdr (req_headers req) ''authorization''")
  case False
  then show ?thesis by (simp add: handler_def reaches_header_checks_def)
next
  case True
  show ?thesis
  proof (cases "findFirstUser (hdr_text (req_headers req) ''authorization'') (users st)")
    case None
    with True show ?thesis by (simp add: handler_def reaches_header_checks_def)
  next
    case (Some u)
    obtain r st1 where rl: "ratelimit_check env cfg u (req_headers req) st = (r, st1)"
      by (cases "ratelimit_check env cfg u (req_headers req) st") auto
    have f1: "files st1 = files st"
      using files_ratelimit_check [of env cfg u "req_headers req" st] rl by simp
    have e1: "file_effects st1 = file_effects st"
      using file_effects_ratelimit_check [of env cfg u "req_headers req" st] rl by simp
    show ?thesis
    proof (cases r)
      case limited: (Some resp)
      have "status_code resp = 429"
        using ratelimit_check_status [of env cfg u "req_headers req" st resp] rl limited by simp
      with True Some rl limited f1 e1 show ?thesis
        by (simp add: handler_def reaches_header_checks_def)
    next
      case None
      have h: "handler env cfg req st = after_ratelimit env cfg u req st1"
        using True Some rl None by (simp add: handler_def)
      note ae = after_expiry_bad_percent [of "req_headers req" v env, OF hdr bad, of cfg u]
      have a: "snd (after_ratelimit env cfg u req st1) = st1"
        by (simp add: after_ratelimit_def ae split: sum.split)
      have b: "status_code (fst (after_ratelimit env cfg u req st1)) \<noteq> 200"
        by (simp add: after_ratelimit_def ae split: sum.split)
      have c: "fst (after_ratelimit env cfg u req st1)
              = BadRequest (if isNaN (Number_of env v)
                            then ''invalid image compression percent (invalid number)''
                            else ''invalid image compression percent (% < 0 || % > 100)'')"
        if "reaches_header_checks env cfg req st"
        using that True Some
        by (auto simp: reaches_header_checks_def after_ratelimit_def ae split: sum.splits)
      from a b c f1 e1 show ?thesis by (simp add: h)
    qed
  qed
qed

theorem invalid_compression_percent_rejected_witness:
  "req_headers (example_request [(''authorization'', ''adm''), (''host'', ''h''),
                                  (''image-compression-percent'', ''150'')] [example_image])
     ''image-compression-percent'' = Some ''150''
   \<and> gt_num (Number_of example_env ''150'') 100
   \<and> reaches_header_checks example_env example_cfg
        (example_request [(''authorization'', ''adm''), (''host'', ''h''),
                          (''image-compression-percent'', ''150'')] [example_image])
        example_state
   \<and> fst (handler example_env example_cfg
        (example_request [(''authorization'', ''adm''), (''host'', ''h''),
                          (''image-compression-percent'', ''150'')] [example_image])
        example_state)
       = BadRequest ''invalid image compression percent (% < 0 || % > 100)''
   \<and> files (snd (handler example_env example_cfg
        (example_request [(''authorization'', ''adm''), (''host'', ''h''),
                          (''image-compression-percent'', ''150'')] [example_image])
        example_state)) = files example_state
   \<and> file_effects (snd (handler example_env example_cfg
        (example_request [(''authorization'', ''adm''), (''host'', ''h''),
                          (''image-compression-percent'', ''150'')] [example_image])
        example_state)) = file_effects example_state
   \<and> isNaN (Number_of example_env ''abc'')
   \<and> fst (handler example_env example_cfg
        (example_request [(''authorization'', ''adm''), (''host'', ''h''),
                          (''image-compression-percent'', ''abc'')] [example_image])
        example_state)
       = BadRequest ''invalid image compression percent (invalid number)''"
proof -
  let ?req = "example_request [(''authorization'', ''adm''), (''host'', ''h''),
                               (''image-compression-percent'', ''150'')] [example_image]"
  let ?req' = "example_request [(''authorization'', ''adm''), (''host'', ''h''),
                               (''image-compression-percent'', ''abc'')] [example_image]"
  have h: "req_headers ?req ''image-compression-percent'' = Some ''150''"
    by (simp add: example_request_def)
  have g: "gt_num (Number_of example_env ''150'') 100" by code_simp
  then have bad: "isNaN (Number_of example_env ''150'') \<or> lt_num (Number_of example_env ''150'') 0
              \<or> gt_num (Number_of example_env ''150'') 100" by simp
  have n: "\<not> isNaN (Number_of example_env ''150'')" by code_simp
  have reach: "reaches_header_checks example_env example_cfg ?req example_state" by code_simp
  note r = invalid_compression_percent_rejected [OF h bad, of example_cfg example_state]
  have h': "req_headers ?req' ''image-compression-percent'' = Some ''abc''"
    by (simp add: example_request_def)
  have nan: "isNaN (Number_of example_env ''abc'')" by code_simp
  then have bad': "isNaN (Number_of example_env ''abc'') \<or> lt_num (Number_of example_env ''abc'') 0
              \<or> gt_num (Number_of example_env ''abc'') 100" by simp
  have reach': "reaches_header_checks example_env example_cfg ?req' example_state" by code_simp
  note r' = invalid_compression_percent_rejected [OF h' bad', of example_cfg example_state]
  show ?thesis using r r' h g n reach nan reach' by simp
qed

subsection \<open>The last chunk\<close>

lemma handler_routing:
  assumes "reaches_routing env cfg req st"
  obtains u fs requested expiry fid where
    "findFirstUser (hdr_text (req_headers req) ''authorization'') (users st) = Some u"
    "fst (ratelimit_check env cfg u (req_headers req) st) = None"
    "multer req = Inr fs"
    "client_expiry env (req_headers req) = Inr requested"
    "default_expiry env cfg requested = Inr expiry"
    "folder_lookup u (header_number env (req_headers req) ''x-zipline-folder'')
       (snd (ratelimit_check env cfg u (req_headers req) st)) = Inr fid"
    "handler env cfg req st =
       (if truthy_hdr (req_headers req) ''content-range'' \<and> chunks_enabled cfg
        then chunked env cfg u (req_headers req) fs
               (settings_of env cfg (req_headers req) expiry)
               (snd (ratelimit_check env cfg u (req_headers req) st))
        else single_shot env cfg u (req_headers req) fs
               (settings_of env cfg (req_headers req) expiry)
               (snd (ratelimit_check env cfg u (req_headers req) st))
               (with_folder fid (empty_response\<lparr>r_expiresAt := requested\<rparr>)))"
proof -
  from assms have auth: "truthy_hdr (req_headers req) ''authorization''"
    by (simp add: reaches_routing_def reaches_header_checks_def)
  from assms obtain u where
    u: "findFirstUser (hdr_text (req_headers req) ''authorization'') (users st) = Some u"
    by (auto simp: reaches_routing_def reaches_header_checks_def split: option.splits)
  from assms u have rl: "fst (ratelimit_check env cfg u (req_headers req) st) = None"
    by (simp add: reaches_routing_def reaches_header_checks_def)
  from assms u obtain fs where fs: "multer req = Inr fs"
    by (auto simp: reaches_routing_def reaches_header_checks_def split: sum.splits)
  from assms u fs obtain requested where
    ce: "client_expiry env (req_headers req) = Inr requested"
    by (auto simp: reaches_routing_def reaches_header_checks_def split: sum.splits)
  from assms u fs ce obtain expiry where
    de: "default_expiry env cfg requested = Inr expiry"
    by (auto simp: reaches_routing_def reaches_header_checks_def split: sum.splits)
  from assms u obtain fid where
    fl: "folder_lookup u (header_number env (req_headers req) ''x-zipline-folder'')
       (snd (ratelimit_check env cfg u (req_headers req) st)) = Inr fid"
    by (auto simp: reaches_routing_def split: sum.splits)
  from assms have
    cc: "check_compression_percent
           (header_number env (req_headers req) ''image-compression-percent'') = None"
    and cm: "check_max_views (header_number env (req_headers req) ''max-views'') = None"
    by (simp_all add: reaches_routing_def)
  obtain st1 where st1: "ratelimit_check env cfg u (req_headers req) st = (None, st1)"
    using rl by (cases "ratelimit_check env cfg u (req_headers req) st") auto
  have "handler env cfg req st =
       (if truthy_hdr (req_headers req) ''content-range'' \<and> chunks_enabled cfg
        then chunked env cfg u (req_headers req) fs
               (settings_of env cfg (req_headers req) expiry) st1
        else single_shot env cfg u (req_headers req) fs
               (settings_of env cfg (req_headers req) expiry) st1
               (with_folder fid (empty_response\<lparr>r_expiresAt := requested\<rparr>)))"
    using auth u st1 fs ce de fl cc cm
    by (simp add: handler_def after_ratelimit_def after_expiry_def Let_def settings_of_def)
  with u rl fs ce de fl st1 that show thesis by simp
qed

lemma ratelimit_check_chunk:
  "truthy_hdr hs ''content-range'' \<Longrightarrow> ratelimit_check env cfg u hs st = (None, st)"
  by (simp add: ratelimit_check_def)


lemma chunked_last:
  assumes last: "hs ''x-zipline-partial-lastchunk'' = Some ''true''"
    and name: "hs ''x-zipline-partial-filename'' = Some filename"
    and free: "\<not> (s_format s = ''name'' \<and> name_in_use filename st)"
  shows "chunked env cfg u hs (Some (c # cs)) s st
       = (JsonPending [pick_domain env cfg u hs 0 @ route_prefix cfg
                        @ encodeURI env
                            (f_name (partial_record env cfg u hs s filename (next_file_id st)))],
          st\<lparr>files := files st @ [partial_record env cfg u hs s filename (next_file_id st)],
             next_file_id := next_file_id st + 1,
             effects := effects st @
               [TempWritten
                  \<lparr>t_dir = temp_directory cfg,
                   t_identifier = hs ''x-zipline-partial-identifier'',
                   t_start = nth_opt (content_range_numbers env
                                        (hdr_text hs ''content-range'')) 0,
                   t_end = nth_opt (content_range_numbers env
                                      (hdr_text hs ''content-range'')) 1,
                   t_data = buffer c\<rparr>,
                FileCreated (partial_record env cfg u hs s filename (next_file_id st)),
                WorkerSpawned
                  \<lparr>w_fileId = f_id (partial_record env cfg u hs s filename (next_file_id st)),
                   w_filename
                     = f_name (partial_record env cfg u hs s filename (next_file_id st)),
                   w_mimetype
                     = f_mimetype (partial_record env cfg u hs s filename (next_file_id st)),
                   w_identifier = hs ''x-zipline-partial-identifier'',
                   w_lastchunk = True,
                   w_totalBytes = nth_opt (content_range_numbers env
                                             (hdr_text hs ''content-range'')) 2,
                   w_expiresAt = s_expiry s, w_format = s_format s,
                   w_fileMaxViews = s_maxViews s\<rparr>]\<rparr>)"
proof -
  show ?thesis
    using assms
    unfolding chunked_def Let_def
    by (simp add: partial_name_conflict_def add_effect_def create_file_def)
qed

lemma partial_record_fields:
  "f_id (partial_record env cfg u hs s filename i) = i"
  "f_userId (partial_record env cfg u hs s filename i) = uid u"
  "f_name (partial_record env cfg u hs s filename i)
     = formatFileName env 0 (s_format s) filename
       @ (if extension filename = [] then [] else ''.'' @ extension filename)"
  by (simp_all add: partial_record_def Let_def ext_of_extension)

text \<open>
  C1, as the code has it. The handler never looks at the ranges submitted for an upload.
  A last-chunk request that reaches the chunked path with a payload and a filename, and
  without a name conflict, does exactly this, whatever chunks were written before: it
  writes its payload to the temporary directory under the identifier and the range of
  the request, creates the row of lines 183 to 193 for the user, with the next id and
  the formatted name with the extension of the filename, hands the reassembly of that
  row to a worker, and answers with status 200, \<open>pending: true\<close> and the URL made of the
  domain, the route and the encoded name of the row.
\<close>

theorem last_chunk_creates_record_unchecked:
  assumes reach: "reaches_routing env cfg req st"
    and cr: "truthy_hdr (req_headers req) ''content-range''"
    and en: "chunks_enabled cfg"
    and last: "req_headers req ''x-zipline-partial-lastchunk'' = Some ''true''"
    and name: "req_headers req ''x-zipline-partial-filename'' = Some filename"
    and body: "multer req = Inr (Some (c # cs))"
    and free: "\<not> (request_format cfg (req_headers req) = ''name'' \<and> name_in_use filename st)"
    and usr: "findFirstUser (hdr_text (req_headers req) ''authorization'') (users st) = Some u"
    and asked: "client_expiry env (req_headers req) = Inr requested"
    and exp: "default_expiry env cfg requested = Inr expiry"
  shows "let hs = req_headers req;
             s = settings_of env cfg hs expiry;
             range = content_range_numbers env (hdr_text hs ''content-range'');
             r = partial_record env cfg u hs s filename (next_file_id st);
             t = \<lparr>t_dir = temp_directory cfg,
                  t_identifier = hs ''x-zipline-partial-identifier'',
                  t_start = nth_opt range 0, t_end = nth_opt range 1,
                  t_data = buffer c\<rparr>;
             w = \<lparr>w_fileId = f_id r, w_filename = f_name r, w_mimetype = f_mimetype r,
                  w_identifier = hs ''x-zipline-partial-identifier'',
                  w_lastchunk = True, w_totalBytes = nth_opt range 2,
                  w_expiresAt = expiry, w_format = request_format cfg hs,
                  w_fileMaxViews = header_number env hs ''max-views''\<rparr>
         in handler env cfg req st
              = (JsonPending [pick_domain env cfg u hs 0 @ route_prefix cfg
                               @ encodeURI env (f_name r)],
                 st\<lparr>files := files st @ [r], next_file_id := next_file_id st + 1,
                    effects := effects st
                      @ [TempWritten t, FileCreated r, WorkerSpawned w]\<rparr>)
          \<and> status_code (fst (handler env cfg req st)) = 200
          \<and> f_id r = next_file_id st
          \<and> f_userId r = uid u
          \<and> f_name r = formatFileName env 0 (request_format cfg hs) filename
                        @ (if extension filename = [] then []
                           else ''.'' @ extension filename)"
proof -
  obtain u' fs requested' expiry' fid where
    u': "findFirstUser (hdr_text (req_headers req) ''authorization'') (users st) = Some u'"
    and "fst (ratelimit_check env cfg u' (req_headers req) st) = None"
    and fs: "multer req = Inr fs"
    and r': "client_expiry env (req_headers req) = Inr requested'"
    and e': "default_expiry env cfg requested' = Inr expiry'"
    and "folder_lookup u' (header_number env (req_headers req) ''x-zipline-folder'')
       (snd (ratelimit_check env cfg u' (req_headers req) st)) = Inr fid"
    and h: "handler env cfg req st =
       (if truthy_hdr (req_headers req) ''content-range'' \<and> chunks_enabled cfg
        then chunked env cfg u' (req_headers req) fs
               (settings_of env cfg (req_headers req) expiry')
               (snd (ratelimit_check env cfg u' (req_headers req) st))
        else single_shot env cfg u' (req_headers req) fs
               (settings_of env cfg (req_headers req) expiry')
               (snd (ratelimit_check env cfg u' (req_headers req) st))
               (with_folder fid (empty_response\<lparr>r_expiresAt := requested'\<rparr>)))"
    by (rule handler_routing [OF reach])
  have uu: "u' = u" using u' usr by simp
  have rr: "requested' = requested" using r' asked by simp
  have ee: "expiry' = expiry" using e' exp by (simp add: rr)
  have st1: "snd (ratelimit_check env cfg u (req_headers req) st) = st"
    using cr by (simp add: ratelimit_check_chunk)
  have fs': "fs = Some (c # cs)" using fs body by simp
  have run: "handler env cfg req st
               = chunked env cfg u (req_headers req) (Some (c # cs))
                   (settings_of env cfg (req_headers req) expiry) st"
    unfolding h uu ee st1 fs' using cr en by simp
  have free': "\<not> (s_format (settings_of env cfg (req_headers req) expiry) = ''name''
                    \<and> name_in_use filename st)"
    using free by (simp add: s_format_settings_of)
  have sf: "s_format (settings_of env cfg (req_headers req) expiry)
              = request_format cfg (req_headers req)"
    "s_expiry (settings_of env cfg (req_headers req) expiry) = expiry"
    "s_maxViews (settings_of env cfg (req_headers req) expiry)
       = header_number env (req_headers req) ''max-views''"
    by (simp_all add: settings_of_def)
  note cl = chunked_last [OF last name free', of env cfg u c cs, folded run, unfolded sf]
  have a: "status_code (fst (handler env cfg req st)) = 200"
    by (simp add: cl)
  show ?thesis
    unfolding Let_def partial_record_fields sf
    by (intro conjI refl a cl [unfolded partial_record_fields sf])
qed

theorem last_chunk_creates_record_unchecked_witness:
  "reaches_routing example_env example_cfg
     (example_request
        [(''authorization'', ''adm''), (''host'', ''h''),
         (''content-range'', ''bytes 5-10/20''),
         (''x-zipline-partial-lastchunk'', ''true''),
         (''x-zipline-partial-filename'', ''big.bin''),
         (''x-zipline-partial-identifier'', ''abc'')] [example_text])
     example_state
   \<and> chunks_enabled example_cfg
   \<and> \<not> name_in_use ''big.bin'' example_state
   \<and> fst (handler example_env example_cfg
        (example_request
           [(''authorization'', ''adm''), (''host'', ''h''),
            (''content-range'', ''bytes 5-10/20''),
            (''x-zipline-partial-lastchunk'', ''true''),
            (''x-zipline-partial-filename'', ''big.bin''),
            (''x-zipline-partial-identifier'', ''abc'')] [example_text])
        example_state) = JsonPending [''http://h/u/f0.bin'']
   \<and> status_code (fst (handler example_env example_cfg
        (example_request
           [(''authorization'', ''adm''), (''host'', ''h''),
            (''content-range'', ''bytes 5-10/20''),
            (''x-zipline-partial-lastchunk'', ''true''),
            (''x-zipline-partial-filename'', ''big.bin''),
            (''x-zipline-partial-identifier'', ''abc'')] [example_text])
        example_state)) = 200
   \<and> map (\<lambda>r. (f_id r, f_name r, f_userId r))
       (files (snd (handler example_env example_cfg
        (example_request
           [(''authorization'', ''adm''), (''host'', ''h''),
            (''content-range'', ''bytes 5-10/20''),
            (''x-zipline-partial-lastchunk'', ''true''),
            (''x-zipline-partial-filename'', ''big.bin''),
            (''x-zipline-partial-identifier'', ''abc'')] [example_text])
        example_state))) = [(1, ''f0.bin'', 1)]
   \<and> length (effects (snd (handler example_env example_cfg
        (example_request
           [(''authorization'', ''adm''), (''host'', ''h''),
            (''content-range'', ''bytes 5-10/20''),
            (''x-zipline-partial-lastchunk'', ''true''),
            (''x-zipline-partial-filename'', ''big.bin''),
            (''x-zipline-partial-identifier'', ''abc'')] [example_text])
        example_state))) = 3"
proof -
  let ?req = "example_request
        [(''authorization'', ''adm''), (''host'', ''h''),
         (''content-range'', ''bytes 5-10/20''),
         (''x-zipline-partial-lastchunk'', ''true''),
         (''x-zipline-partial-filename'', ''big.bin''),
         (''x-zipline-partial-identifier'', ''abc'')] [example_text]"
  have reach: "reaches_routing example_env example_cfg ?req example_state" by code_simp
  have cr: "truthy_hdr (req_headers ?req) ''content-range''" by code_simp
  have en: "chunks_enabled example_cfg" by code_simp
  have last: "req_headers ?req ''x-zipline-partial-lastchunk'' = Some ''true''"
    by (simp add: example_request_def)
  have name: "req_headers ?req ''x-zipline-partial-filename'' = Some ''big.bin''"
    by (simp add: example_request_def)
  have body: "multer ?req = Inr (Some (example_text # []))"
    by (simp add: example_request_def)
  have nu: "\<not> name_in_use ''big.bin'' example_state" by code_simp
  then have free: "\<not> (request_format example_cfg (req_headers ?req) = ''name''
                      \<and> name_in_use ''big.bin'' example_state)" by simp
  have usr: "findFirstUser (hdr_text (req_headers ?req) ''authorization'')
               (users example_state) = Some example_admin"
    by code_simp
  have asked: "client_expiry example_env (req_headers ?req) = Inr None" by code_simp
  have exp: "default_expiry example_env example_cfg None = Inr None" by code_simp
  note r = last_chunk_creates_record_unchecked
             [OF reach cr en last name body free usr asked exp, unfolded Let_def]
  note run = r [THEN conjunct1]
  have a: "fst (handler example_env example_cfg ?req example_state)
             = JsonPending [''http://h/u/f0.bin'']"
    by (simp only: run fst_conv) code_simp
  have b: "status_code (fst (handler example_env example_cfg ?req example_state)) = 200"
    by (rule r [THEN conjunct2, THEN conjunct1])
  have c: "map (\<lambda>r. (f_id r, f_name r, f_userId r))
             (files (snd (handler example_env example_cfg ?req example_state)))
           = [(1, ''f0.bin'', 1)]"
    by (simp only: run snd_conv) code_simp
  have d: "length (effects (snd (handler example_env example_cfg ?req example_state))) = 3"
    by (simp only: run snd_conv) code_simp
  show ?thesis by (intro conjI reach en nu a b c d)
qed



text \<open>
  C1 as stated fails. The only chunk of the upload \<open>abc\<close> covers the offsets 5 to 10 of
  20 bytes and is marked as the last one: the ranges leave a gap, and the handler creates
  the row and answers with status 200 and the URL.
\<close>

theorem last_chunk_gap_counterexample:
  "stored_ranges ''abc''
     (effects (snd (handler example_env example_cfg
        (example_request
           [(''authorization'', ''adm''), (''host'', ''h''),
            (''content-range'', ''bytes 5-10/20''),
            (''x-zipline-partial-lastchunk'', ''true''),
            (''x-zipline-partial-filename'', ''big.bin''),
            (''x-zipline-partial-identifier'', ''abc'')] [example_text])
        example_state))) = [(5, 10)]
   \<and> \<not> covered_exactly_once [(5, 10)] 20
   \<and> fst (handler example_env example_cfg
        (example_request
           [(''authorization'', ''adm''), (''host'', ''h''),
            (''content-range'', ''bytes 5-10/20''),
            (''x-zipline-partial-lastchunk'', ''true''),
            (''x-zipline-partial-filename'', ''big.bin''),
            (''x-zipline-partial-identifier'', ''abc'')] [example_text])
        example_state) = JsonPending [''http://h/u/f0.bin'']
   \<and> status_code (fst (handler example_env example_cfg
        (example_request
           [(''authorization'', ''adm''), (''host'', ''h''),
            (''content-range'', ''bytes 5-10/20''),
            (''x-zipline-partial-lastchunk'', ''true''),
            (''x-zipline-partial-filename'', ''big.bin''),
            (''x-zipline-partial-identifier'', ''abc'')] [example_text])
        example_state)) = 200
   \<and> map f_name (files (snd (handler example_env example_cfg
        (example_request
           [(''authorization'', ''adm''), (''host'', ''h''),
            (''content-range'', ''bytes 5-10/20''),
            (''x-zipline-partial-lastchunk'', ''true''),
            (''x-zipline-partial-filename'', ''big.bin''),
            (''x-zipline-partial-identifier'', ''abc'')] [example_text])
        example_state))) = [''f0.bin'']"
  by code_simp


end
